theory Spec2Isabelle
  imports Main "HOL-Library.Word" "HOL-Library.AList"
begin

section \<open>Import identifiers of the schedule-rotation resource\<close>

text \<open>
  \<^verbatim>\<open>strings.Index(s, ":")\<close> of the Go library, for a one-byte separator: the
  position of its first occurrence, if any.
\<close>


fun Index :: "string \<Rightarrow> char \<Rightarrow> nat option" where
  "Index [] sep = None"
| "Index (x # xs) sep =
     (if x = sep then Some 0
      else (case Index xs sep of None \<Rightarrow> None | Some m \<Rightarrow> Some (Suc m)))"

text \<open>
  The loop of the library's \<^verbatim>\<open>genSplit\<close>: \<open>k\<close> is the number of cuts still
  allowed (\<^verbatim>\<open>for i < n\<close> after \<^verbatim>\<open>n--\<close>); what is left of the string is the
  last piece, uncut.
\<close>

fun genSplitLoop :: "string \<Rightarrow> char \<Rightarrow> nat \<Rightarrow> string list" where
  "genSplitLoop s sep 0 = [s]"
| "genSplitLoop s sep (Suc k) =
     (case Index s sep of
        None \<Rightarrow> [s]
      | Some m \<Rightarrow> take m s # genSplitLoop (drop (Suc m) s) sep k)"

text \<open>
  \<^verbatim>\<open>strings.SplitN(s, sep, n)\<close> for \<open>n \<ge> 0\<close>: nothing for \<open>n = 0\<close>, otherwise
  at most \<open>n\<close> pieces, \<open>n\<close> being capped by \<open>len(s) + 1\<close> first.
\<close>

definition SplitN :: "string \<Rightarrow> char \<Rightarrow> nat \<Rightarrow> string list" where
  "SplitN s sep n =
     (if n = 0 then []
      else genSplitLoop s sep ((if n > length s + 1 then length s + 1 else n) - 1))"

definition importIDError :: "string \<Rightarrow> string" where
  "importIDError id' =
     ''unexpected format of import resource id ('' @ id' @ ''), expected teamID:ID''"

text \<open>
  \<^verbatim>\<open>parse3PartImportID\<close> returns the three pieces and a nil error, or three empty
  strings and the error. The Go disjunction short-circuits, so a piece is only read when
  there are three of them.
\<close>

definition parse3PartImportID :: "string \<Rightarrow> string \<times> string \<times> string \<times> string option" where
  "parse3PartImportID id' =
     (let parts = SplitN id' (CHR '':'') 3 in
      if length parts \<noteq> 3 \<or> parts ! 0 = [] \<or> parts ! 1 = [] \<or> parts ! 2 = []
      then ([], [], [], Some (importIDError id'))
      else (parts ! 0, parts ! 1, parts ! 2, None))"

text \<open>
  The shape of an accepted identifier: two separators, the first two pieces free of the
  separator, the third one arbitrary.
\<close>

definition threeParts :: "string \<Rightarrow> string \<Rightarrow> string \<Rightarrow> string \<Rightarrow> bool" where
  "threeParts s a b c \<longleftrightarrow>
     s = a @ CHR '':'' # b @ CHR '':'' # c \<and> CHR '':'' \<notin> set a \<and> CHR '':'' \<notin> set b"

section \<open>Resource data, diagnostics and the remote API\<close>

text \<open>
  \<^verbatim>\<open>diag.Diagnostics\<close>, as the handlers produce it: \<^verbatim>\<open>nil\<close> (\<open>None\<close>), or one
  diagnostic, built from an error (\<^verbatim>\<open>diag.FromErr\<close>) or from a message of the
  handler's own (\<^verbatim>\<open>diag.Errorf\<close>).
\<close>

datatype 'e Diagnostic = FromErr 'e | Errorf string

type_synonym 'e Diagnostics = "'e Diagnostic option"

text \<open>
  \<^verbatim>\<open>schema.ResourceData\<close>: the resource ID (\<^verbatim>\<open>d.Id()\<close>, \<^verbatim>\<open>d.SetId\<close>) and the
  attributes (\<^verbatim>\<open>d.Get\<close>).
\<close>

record 'a ResourceData =
  Id :: string
  attrs :: 'a

definition SetId :: "string \<Rightarrow> 'a ResourceData \<Rightarrow> 'a ResourceData" where
  "SetId v d = d\<lparr>Id := v\<rparr>"

text \<open>
  \<^verbatim>\<open>d.Get\<close> of an optional attribute that is not set gives the zero value of its type.
\<close>

definition GetInt :: "int option \<Rightarrow> int" where
  "GetInt v = (case v of None \<Rightarrow> 0 | Some i \<Rightarrow> i)"

definition GetString :: "string option \<Rightarrow> string" where
  "GetString v = (case v of None \<Rightarrow> [] | Some s \<Rightarrow> s)"

text \<open>
  The remote platform is a state \<open>'s\<close>; a method of \<^verbatim>\<open>api.Client\<close> is a function of
  that state giving its result (\<open>Inl\<close> the error) and the next state. \<open>calls\<close> records
  every API call a handler issues, in order.
\<close>

record ('s, 'c) World =
  server :: 's
  calls :: "'c list"

definition callApi ::
  "('s \<Rightarrow> 'r \<times> 's) \<Rightarrow> 'c \<Rightarrow> ('s, 'c) World \<Rightarrow> 'r \<times> ('s, 'c) World" where
  "callApi f c w =
     (case f (server w) of (r, s') \<Rightarrow> (r, w\<lparr>server := s', calls := calls w @ [c]\<rparr>))"

text \<open>\<^verbatim>\<open>api.IsResourceNotFoundError\<close> is not part of these sources: a parameter.\<close>

record 'e ApiErrors =
  IsResourceNotFoundError :: "'e \<Rightarrow> bool"

section \<open>Decimal formatting\<close>

definition digitChar :: "nat \<Rightarrow> char" where
  "digitChar d = char_of (48 + d)"

text \<open>\<^verbatim>\<open>strconv.FormatUint(n, 10)\<close>: the decimal digits of \<open>n\<close>, most significant first.\<close>

function formatDecimal :: "nat \<Rightarrow> string" where
  "formatDecimal n =
     (if n < 10 then [digitChar n] else formatDecimal (n div 10) @ [digitChar (n mod 10)])"
  by pat_completeness auto
termination
  by (relation "measure (\<lambda>n. n)") auto

declare formatDecimal.simps [simp del]

text \<open>The number a string of decimal digits reads as.\<close>

definition decimalValue :: "string \<Rightarrow> nat" where
  "decimalValue s = foldl (\<lambda>n c. 10 * n + (of_char c - 48)) 0 s"

definition FormatUint :: "64 word \<Rightarrow> string" where
  "FormatUint n = formatDecimal (unat n)"

text \<open>\<^verbatim>\<open>strconv.Itoa\<close>: a minus sign before the digits of a negative number.\<close>

definition Itoa :: "int \<Rightarrow> string" where
  "Itoa i = (if i < 0 then CHR ''-'' # formatDecimal (nat (- i)) else formatDecimal (nat i))"

section \<open>The webform resource\<close>

text \<open>
  The attributes of \<^verbatim>\<open>resourceWebform\<close>'s schema that the handlers read, with the
  values \<^verbatim>\<open>d.Get\<close> returns. The SDK returns a value of the declared type, so the type
  assertions of the handlers are left implicit. \<open>wf_tags\<close> holds the entries of the
  \<^verbatim>\<open>tags\<close> map in the order \<^verbatim>\<open>range\<close> visits them.
\<close>

record ServiceBlock =
  svc_service_id :: string
  svc_webform_id :: int
  svc_name :: string
  svc_alias :: string

record SeverityBlock =
  sev_type :: string
  sev_description :: string

record WebformAttrs =
  wf_name :: string
  wf_team_id :: string
  wf_form_owner_type :: string
  wf_form_owner_id :: string
  wf_form_owner_name :: string
  wf_host_name :: string
  wf_is_cname :: bool
  wf_header :: string
  wf_description :: string
  wf_title :: string
  wf_footer_text :: string
  wf_footer_link :: string
  wf_email_on :: "string list"
  wf_services :: "ServiceBlock list"
  wf_severity :: "SeverityBlock list"
  wf_tags :: "(string \<times> string) list"

text \<open>
  \<^verbatim>\<open>api.WebformReq\<close> with the fields the handlers assign; \<^verbatim>\<open>api.WFService\<close> and
  \<^verbatim>\<open>api.WFSeverity\<close> are the type parameters \<open>'svc\<close> and \<open>'sev\<close>.
\<close>

record ('svc, 'sev) WebformReq =
  Req_Name :: string
  Req_TeamID :: string
  Req_FormOwnerType :: string
  Req_FormOwnerID :: string
  Req_FormOwnerName :: string
  Req_HostName :: string
  Req_IsCname :: bool
  Req_Header :: string
  Req_Description :: string
  Req_Title :: string
  Req_FooterText :: string
  Req_FooterLink :: string
  Req_EmailOn :: "string list"
  Req_Services :: "'svc list"
  Req_Severity :: "'sev list"
  Req_Tags :: "string \<rightharpoonup> string"

datatype ('svc, 'sev) WebformCall =
    CreateWebformCall string "('svc, 'sev) WebformReq"
  | GetWebformByIdCall string string
  | UpdateWebformCall string string "('svc, 'sev) WebformReq"
  | DeleteWebformCall string string

text \<open>
  What the webform handlers call and these sources do not hold: the client's methods
  (\<^verbatim>\<open>CreateWebform\<close> gives \<^verbatim>\<open>uint64(webformRes.WebFormRes.ID)\<close>, the one field
  of its response that is read), the provider's \<^verbatim>\<open>Decode\<close> at the two types it is
  used at, and \<^verbatim>\<open>tf.EncodeAndSet\<close>.
\<close>

record ('e, 's, 'svc, 'sev, 'wf) WebformEnv = "'e ApiErrors" +
  CreateWebform :: "string \<Rightarrow> ('svc, 'sev) WebformReq \<Rightarrow> 's \<Rightarrow> ('e + 64 word) \<times> 's"
  GetWebformById :: "string \<Rightarrow> string \<Rightarrow> 's \<Rightarrow> ('e + 'wf) \<times> 's"
  UpdateWebform :: "string \<Rightarrow> string \<Rightarrow> ('svc, 'sev) WebformReq \<Rightarrow> 's \<Rightarrow> ('e + unit) \<times> 's"
  DeleteWebform :: "string \<Rightarrow> string \<Rightarrow> 's \<Rightarrow> ('e + unit) \<times> 's"
  DecodeServices :: "ServiceBlock list \<Rightarrow> 'e + 'svc list"
  DecodeSeverity :: "SeverityBlock list \<Rightarrow> 'e + 'sev list"
  EncodeAndSetWebform ::
    "'wf \<Rightarrow> WebformAttrs ResourceData \<Rightarrow> 'e option \<times> WebformAttrs ResourceData"

text \<open>
  \<^verbatim>\<open>emailon := make([]string, len(memailon)); for i, v := range memailon { emailon[i] = v }\<close>
\<close>

fun copyEmailOn :: "nat \<Rightarrow> string list \<Rightarrow> string list \<Rightarrow> string list" where
  "copyEmailOn i [] emailon = emailon"
| "copyEmailOn i (v # vs) emailon = copyEmailOn (Suc i) vs (emailon[i := v])"

text \<open>\<^verbatim>\<open>for k, v := range mtags { tags[k] = v }\<close> into an empty map.\<close>

fun copyTags :: "(string \<times> string) list \<Rightarrow> (string \<rightharpoonup> string) \<Rightarrow> (string \<rightharpoonup> string)" where
  "copyTags [] tags = tags"
| "copyTags ((k, v) # kvs) tags = copyTags kvs (tags(k \<mapsto> v))"

text \<open>
  The request both \<^verbatim>\<open>resourceWebformCreate\<close> and \<^verbatim>\<open>resourceWebformUpdate\<close>
  assemble (the two bodies are the same up to the name of the variable): the scalar
  fields, the \<^verbatim>\<open>email_on\<close> copy, the two decoded lists (an error of \<^verbatim>\<open>Decode\<close>
  ends the handler with \<^verbatim>\<open>diag.FromErr\<close>), the tags.
\<close>

definition buildWebformReq ::
  "('e, 's, 'svc, 'sev, 'wf, 'z) WebformEnv_scheme \<Rightarrow> WebformAttrs \<Rightarrow>
     'e + ('svc, 'sev) WebformReq" where
  "buildWebformReq env a =
     (let req = \<lparr>Req_Name = wf_name a, Req_TeamID = wf_team_id a,
                 Req_FormOwnerType = wf_form_owner_type a,
                 Req_FormOwnerID = wf_form_owner_id a,
                 Req_FormOwnerName = wf_form_owner_name a,
                 Req_HostName = wf_host_name a, Req_IsCname = wf_is_cname a,
                 Req_Header = wf_header a, Req_Description = wf_description a,
                 Req_Title = wf_title a, Req_FooterText = wf_footer_text a,
                 Req_FooterLink = wf_footer_link a,
                 Req_EmailOn = [], Req_Services = [], Req_Severity = [],
                 Req_Tags = Map.empty\<rparr>;
          memailon = wf_email_on a;
          emailon = copyEmailOn 0 memailon (replicate (length memailon) []);
          req = req\<lparr>Req_EmailOn := emailon\<rparr>
      in case DecodeServices env (wf_services a) of
           Inl err \<Rightarrow> Inl err
         | Inr services \<Rightarrow>
             (let req = req\<lparr>Req_Services := services\<rparr>
              in case DecodeSeverity env (wf_severity a) of
                   Inl err \<Rightarrow> Inl err
                 | Inr severity \<Rightarrow>
                     (let req = req\<lparr>Req_Severity := severity\<rparr>;
                          tags = copyTags (wf_tags a) Map.empty
                      in Inr (req\<lparr>Req_Tags := tags\<rparr>))))"

text \<open>
  \<^verbatim>\<open>resourceWebformRead\<close>. \<^verbatim>\<open>d.GetOk("team_id")\<close> is not ok when the attribute
  has its zero value, the empty string.
\<close>

definition resourceWebformRead ::
  "('e, 's, 'svc, 'sev, 'wf, 'z) WebformEnv_scheme \<Rightarrow> WebformAttrs ResourceData \<Rightarrow>
     ('s, ('svc, 'sev) WebformCall) World \<Rightarrow>
     'e Diagnostics \<times> WebformAttrs ResourceData \<times> ('s, ('svc, 'sev) WebformCall) World" where
  "resourceWebformRead env d w =
     (let id' = Id d; teamID = wf_team_id (attrs d) in
      if teamID = [] then (Some (Errorf ''invalid team id provided !''), d, w)
      else
        (case callApi (GetWebformById env teamID id') (GetWebformByIdCall teamID id') w of
           (Inl err, w') \<Rightarrow>
             if IsResourceNotFoundError env err then (None, SetId [] d, w')
             else (Some (FromErr err), d, w')
         | (Inr webform, w') \<Rightarrow>
             (case EncodeAndSetWebform env webform d of
                (Some err, d') \<Rightarrow> (Some (FromErr err), d', w')
              | (None, d') \<Rightarrow> (None, d', w'))))"

definition resourceWebformCreate ::
  "('e, 's, 'svc, 'sev, 'wf, 'z) WebformEnv_scheme \<Rightarrow> WebformAttrs ResourceData \<Rightarrow>
     ('s, ('svc, 'sev) WebformCall) World \<Rightarrow>
     'e Diagnostics \<times> WebformAttrs ResourceData \<times> ('s, ('svc, 'sev) WebformCall) World" where
  "resourceWebformCreate env d w =
     (case buildWebformReq env (attrs d) of
        Inl err \<Rightarrow> (Some (FromErr err), d, w)
      | Inr webformCreateReq \<Rightarrow>
          (let teamID = wf_team_id (attrs d) in
           case callApi (CreateWebform env teamID webformCreateReq)
                  (CreateWebformCall teamID webformCreateReq) w of
             (Inl err, w') \<Rightarrow> (Some (FromErr err), d, w')
           | (Inr webformID, w') \<Rightarrow>
               resourceWebformRead env (SetId (FormatUint webformID) d) w'))"

definition resourceWebformUpdate ::
  "('e, 's, 'svc, 'sev, 'wf, 'z) WebformEnv_scheme \<Rightarrow> WebformAttrs ResourceData \<Rightarrow>
     ('s, ('svc, 'sev) WebformCall) World \<Rightarrow>
     'e Diagnostics \<times> WebformAttrs ResourceData \<times> ('s, ('svc, 'sev) WebformCall) World" where
  "resourceWebformUpdate env d w =
     (case buildWebformReq env (attrs d) of
        Inl err \<Rightarrow> (Some (FromErr err), d, w)
      | Inr webformUpdateReq \<Rightarrow>
          (let teamID = wf_team_id (attrs d) in
           case callApi (UpdateWebform env teamID (Id d) webformUpdateReq)
                  (UpdateWebformCall teamID (Id d) webformUpdateReq) w of
             (Inl err, w') \<Rightarrow> (Some (FromErr err), d, w')
           | (Inr _, w') \<Rightarrow> resourceWebformRead env d w'))"

definition resourceWebformDelete ::
  "('e, 's, 'svc, 'sev, 'wf, 'z) WebformEnv_scheme \<Rightarrow> WebformAttrs ResourceData \<Rightarrow>
     ('s, ('svc, 'sev) WebformCall) World \<Rightarrow>
     'e Diagnostics \<times> WebformAttrs ResourceData \<times> ('s, ('svc, 'sev) WebformCall) World" where
  "resourceWebformDelete env d w =
     (let teamID = wf_team_id (attrs d) in
      if teamID = [] then (Some (Errorf ''invalid team id provided''), d, w)
      else
        (case callApi (DeleteWebform env teamID (Id d)) (DeleteWebformCall teamID (Id d)) w of
           (Inl err, w') \<Rightarrow>
             if IsResourceNotFoundError env err then (None, SetId [] d, w')
             else (Some (FromErr err), d, w')
         | (Inr _, w') \<Rightarrow> (None, d, w')))"

section \<open>The schedule-rotation resource\<close>

text \<open>
  The blocks and attributes of \<^verbatim>\<open>resourceScheduleRotation\<close>'s schema. An optional
  attribute that is not set is \<open>None\<close>. An element of \<^verbatim>\<open>participant_groups\<close> that
  is not a map (the handler tests it: \<^verbatim>\<open>participant.(map[string]interface{})\<close>)
  is \<open>None\<close>.
\<close>

record ParticipantBlock =
  pt_type :: string
  pt_id :: string

record ParticipantGroupBlock =
  pg_participants :: "ParticipantBlock list"

record TimeslotBlock =
  ts_start_hour :: int
  ts_start_minute :: int
  ts_duration :: int
  ts_day_of_week :: "string option"

record RotationAttrs =
  rot_schedule_id :: int
  rot_name :: string
  rot_participant_groups :: "ParticipantGroupBlock option list"
  rot_start_date :: string
  rot_period :: string
  rot_shift_timeslots :: "TimeslotBlock list"
  rot_custom_period_frequency :: "int option"
  rot_custom_period_unit :: "string option"
  rot_change_participants_frequency :: int
  rot_change_participants_unit :: string
  rot_end_date :: "string option"
  rot_ends_after_iterations :: "int option"

text \<open>The structs of package \<^verbatim>\<open>api\<close> the handler fills.\<close>

record Participant =
  Participant_ID :: int
  Participant_Type :: string

record ParticipantGroup =
  Participants :: "Participant list"
  Everyone :: bool

record Timeslot =
  StartHour :: int
  StartMinute :: int
  Duration :: int
  DayOfWeek :: int

text \<open>\<^verbatim>\<open>api.NewRotation\<close>, with the fields the handler assigns.\<close>

record NewRotation =
  NR_Name :: string
  NR_StartDate :: string
  NR_Period :: string
  NR_ChangeParticipantsFrequency :: int
  NR_ChangeParticipantsUnit :: string
  NR_EndDate :: string
  NR_EndsAfterIterations :: int
  NR_ParticipantGroups :: "ParticipantGroup list"
  NR_ShiftTimeSlots :: "Timeslot list"
  NR_CustomPeriodFrequency :: int
  NR_CustomPeriodUnit :: string

datatype RotationCall =
    CreateScheduleRotationCall int NewRotation
  | GetScheduleRotationByIdCall string
  | DeleteScheduleRotationByIDCall string

text \<open>
  What the rotation handlers call and these sources do not hold: the client's methods
  (\<^verbatim>\<open>CreateScheduleRotation\<close> gives \<^verbatim>\<open>rotation.NewRotation.ID\<close>, the one field of
  its response that is read), \<^verbatim>\<open>Decode\<close> at its two types, the text of an error
  (\<^verbatim>\<open>err.Error()\<close>) and \<^verbatim>\<open>tf.EncodeAndSet\<close>.
\<close>

record ('e, 's, 'rot) RotationEnv = "'e ApiErrors" +
  CreateScheduleRotation :: "int \<Rightarrow> NewRotation \<Rightarrow> 's \<Rightarrow> ('e + int) \<times> 's"
  GetScheduleRotationById :: "string \<Rightarrow> 's \<Rightarrow> ('e + 'rot) \<times> 's"
  DeleteScheduleRotationByID :: "string \<Rightarrow> 's \<Rightarrow> ('e + unit) \<times> 's"
  DecodeParticipants :: "ParticipantBlock list \<Rightarrow> 'e + Participant list"
  DecodeTimeslots :: "TimeslotBlock list \<Rightarrow> 'e + Timeslot list"
  ErrorText :: "'e \<Rightarrow> string"
  EncodeAndSetRotation ::
    "'rot \<Rightarrow> RotationAttrs ResourceData \<Rightarrow> 'e option \<times> RotationAttrs ResourceData"

definition resourceScheduleRotationRead ::
  "('e, 's, 'rot, 'z) RotationEnv_scheme \<Rightarrow> RotationAttrs ResourceData \<Rightarrow>
     ('s, RotationCall) World \<Rightarrow>
     'e Diagnostics \<times> RotationAttrs ResourceData \<times> ('s, RotationCall) World" where
  "resourceScheduleRotationRead env d w =
     (let id' = Id d in
      case callApi (GetScheduleRotationById env id') (GetScheduleRotationByIdCall id') w of
        (Inl err, w') \<Rightarrow>
          if IsResourceNotFoundError env err then (None, SetId [] d, w')
          else (Some (FromErr err), d, w')
      | (Inr rotation, w') \<Rightarrow>
          (case EncodeAndSetRotation env rotation d of
             (Some err, d') \<Rightarrow> (Some (FromErr err), d', w')
           | (None, d') \<Rightarrow> (None, d', w')))"

text \<open>
  The loop over \<^verbatim>\<open>participant_groups\<close>: each element must be a map, its
  \<^verbatim>\<open>participants\<close> are decoded, and the group is appended to the list built so far.
\<close>

fun participantGroupsLoop ::
  "('e, 's, 'rot, 'z) RotationEnv_scheme \<Rightarrow> ParticipantGroupBlock option list \<Rightarrow>
     ParticipantGroup list \<Rightarrow> 'e Diagnostic + ParticipantGroup list" where
  "participantGroupsLoop env [] participantGroupsList = Inr participantGroupsList"
| "participantGroupsLoop env (participant # rest) participantGroupsList =
     (case participant of
        None \<Rightarrow> Inl (Errorf ''participant_groups is invalid'')
      | Some participantMap \<Rightarrow>
          (case DecodeParticipants env (pg_participants participantMap) of
             Inl err \<Rightarrow> Inl (Errorf (ErrorText env err))
           | Inr participantsList \<Rightarrow>
               participantGroupsLoop env rest
                 (participantGroupsList @
                    [\<lparr>Participants = participantsList, Everyone = False\<rparr>])))"

text \<open>
  \<^verbatim>\<open>resourceScheduleRotationCreate\<close> up to the API call: the request, or the
  diagnostics it returns early with.
\<close>

definition buildRotationReq ::
  "('e, 's, 'rot, 'z) RotationEnv_scheme \<Rightarrow> RotationAttrs \<Rightarrow> 'e Diagnostic + NewRotation" where
  "buildRotationReq env a =
     (let req = \<lparr>NR_Name = rot_name a, NR_StartDate = rot_start_date a,
                 NR_Period = rot_period a,
                 NR_ChangeParticipantsFrequency = rot_change_participants_frequency a,
                 NR_ChangeParticipantsUnit = rot_change_participants_unit a,
                 NR_EndDate = GetString (rot_end_date a),
                 NR_EndsAfterIterations = GetInt (rot_ends_after_iterations a),
                 NR_ParticipantGroups = [], NR_ShiftTimeSlots = [],
                 NR_CustomPeriodFrequency = 0, NR_CustomPeriodUnit = []\<rparr>;
          participants = rot_participant_groups a
      in case (if length participants > 0 then participantGroupsLoop env participants []
               else Inr (NR_ParticipantGroups req)) of
           Inl dg \<Rightarrow> Inl dg
         | Inr participantGroupsList \<Rightarrow>
             (let req = req\<lparr>NR_ParticipantGroups := participantGroupsList\<rparr>;
                  shiftTimeSlots = rot_shift_timeslots a
              in case (if length shiftTimeSlots > 0 then
                         (if NR_Period req \<noteq> ''custom'' \<and> length shiftTimeSlots > 1
                          then Inl (Errorf
                            ''multiple shift_timeslots can only be set when period is custom'')
                          else (case DecodeTimeslots env shiftTimeSlots of
                                  Inl err \<Rightarrow> Inl (Errorf ''shift_timeslots is invalid'')
                                | Inr shiftTimeSlotsList \<Rightarrow> Inr shiftTimeSlotsList))
                       else Inr (NR_ShiftTimeSlots req)) of
                   Inl dg \<Rightarrow> Inl dg
                 | Inr shiftTimeSlotsList \<Rightarrow>
                     (let req = req\<lparr>NR_ShiftTimeSlots := shiftTimeSlotsList\<rparr>;
                          customPeriodFreq = GetInt (rot_custom_period_frequency a);
                          customPeriodUnit = GetString (rot_custom_period_unit a)
                      in if NR_Period req = ''custom'' then
                           (if customPeriodFreq = 0 then Inl (Errorf
                              ''custom_period_frequency must be set when period is custom'')
                            else if customPeriodUnit = [] then Inl (Errorf
                              ''custom_period_unit must be set when period is custom'')
                            else Inr (req\<lparr>NR_CustomPeriodFrequency := customPeriodFreq,
                                          NR_CustomPeriodUnit := customPeriodUnit\<rparr>))
                         else
                           (if customPeriodFreq \<noteq> 0 then Inl (Errorf
                              ''custom_period_frequency can only be set when period is custom'')
                            else if customPeriodUnit \<noteq> [] then Inl (Errorf
                              ''custom_period_unit can only be set when period is custom'')
                            else Inr req))))"

definition resourceScheduleRotationCreate ::
  "('e, 's, 'rot, 'z) RotationEnv_scheme \<Rightarrow> RotationAttrs ResourceData \<Rightarrow>
     ('s, RotationCall) World \<Rightarrow>
     'e Diagnostics \<times> RotationAttrs ResourceData \<times> ('s, RotationCall) World" where
  "resourceScheduleRotationCreate env d w =
     (case buildRotationReq env (attrs d) of
        Inl dg \<Rightarrow> (Some dg, d, w)
      | Inr createScheduleRotationReq \<Rightarrow>
          (let scheduleID = rot_schedule_id (attrs d) in
           case callApi (CreateScheduleRotation env scheduleID createScheduleRotationReq)
                  (CreateScheduleRotationCall scheduleID createScheduleRotationReq) w of
             (Inl err, w') \<Rightarrow> (Some (FromErr err), d, w')
           | (Inr rotationID, w') \<Rightarrow>
               resourceScheduleRotationRead env (SetId (Itoa rotationID) d) w'))"

definition resourceScheduleRotationDelete ::
  "('e, 's, 'rot, 'z) RotationEnv_scheme \<Rightarrow> RotationAttrs ResourceData \<Rightarrow>
     ('s, RotationCall) World \<Rightarrow>
     'e Diagnostics \<times> RotationAttrs ResourceData \<times> ('s, RotationCall) World" where
  "resourceScheduleRotationDelete env d w =
     (case callApi (DeleteScheduleRotationByID env (Id d))
             (DeleteScheduleRotationByIDCall (Id d)) w of
        (Inl err, w') \<Rightarrow>
          if IsResourceNotFoundError env err then (None, SetId [] d, w')
          else (Some (FromErr err), d, w')
      | (Inr _, w') \<Rightarrow> (None, d, w'))"

text \<open>
  The lifecycle operations \<^verbatim>\<open>resourceScheduleRotation\<close> and \<^verbatim>\<open>resourceWebform\<close>
  register: \<^verbatim>\<open>UpdateContext: resourceScheduleRotationCreate\<close> for the rotation,
  \<^verbatim>\<open>UpdateContext: resourceWebformUpdate\<close> for the webform.
\<close>

definition resourceScheduleRotation_UpdateContext ::
  "('e, 's, 'rot, 'z) RotationEnv_scheme \<Rightarrow> RotationAttrs ResourceData \<Rightarrow>
     ('s, RotationCall) World \<Rightarrow>
     'e Diagnostics \<times> RotationAttrs ResourceData \<times> ('s, RotationCall) World" where
  "resourceScheduleRotation_UpdateContext = resourceScheduleRotationCreate"

definition resourceWebform_UpdateContext ::
  "('e, 's, 'svc, 'sev, 'wf, 'z) WebformEnv_scheme \<Rightarrow> WebformAttrs ResourceData \<Rightarrow>
     ('s, ('svc, 'sev) WebformCall) World \<Rightarrow>
     'e Diagnostics \<times> WebformAttrs ResourceData \<times> ('s, ('svc, 'sev) WebformCall) World" where
  "resourceWebform_UpdateContext = resourceWebformUpdate"

text \<open>
  The validators the schema of the rotation declares: \<^verbatim>\<open>StringLenBetween(1, 150)\<close>
  on the name, \<^verbatim>\<open>StringInSlice\<close> on the enumerations, \<^verbatim>\<open>IntBetween\<close> on the
  fields of a timeslot, \<^verbatim>\<open>MinItems: 1\<close> on \<^verbatim>\<open>shift_timeslots\<close>, and
  \<^verbatim>\<open>tf.ValidateObjectID\<close> (a parameter) on a participant's id. A validator runs on
  an attribute that is set.
\<close>

definition StringInSlice :: "string list \<Rightarrow> string \<Rightarrow> bool" where
  "StringInSlice valid v \<longleftrightarrow> v \<in> set valid"

definition IntBetween :: "int \<Rightarrow> int \<Rightarrow> int \<Rightarrow> bool" where
  "IntBetween lo hi v \<longleftrightarrow> lo \<le> v \<and> v \<le> hi"

definition StringLenBetween :: "nat \<Rightarrow> nat \<Rightarrow> string \<Rightarrow> bool" where
  "StringLenBetween lo hi v \<longleftrightarrow> lo \<le> length v \<and> length v \<le> hi"

definition whenSet :: "('a \<Rightarrow> bool) \<Rightarrow> 'a option \<Rightarrow> bool" where
  "whenSet p v = (case v of None \<Rightarrow> True | Some x \<Rightarrow> p x)"

definition validParticipant :: "(string \<Rightarrow> bool) \<Rightarrow> ParticipantBlock \<Rightarrow> bool" where
  "validParticipant ValidateObjectID p \<longleftrightarrow>
     StringInSlice [''user'', ''squad'', ''team''] (pt_type p) \<and> ValidateObjectID (pt_id p)"

definition validTimeslot :: "TimeslotBlock \<Rightarrow> bool" where
  "validTimeslot t \<longleftrightarrow>
     IntBetween 0 23 (ts_start_hour t) \<and> IntBetween 0 59 (ts_start_minute t) \<and>
     IntBetween 1 1440 (ts_duration t) \<and>
     whenSet (StringInSlice [''monday'', ''tuesday'', ''wednesday'', ''thursday'', ''friday'',
                ''saturday'', ''sunday'']) (ts_day_of_week t)"

definition rotationSchemaValid :: "(string \<Rightarrow> bool) \<Rightarrow> RotationAttrs \<Rightarrow> bool" where
  "rotationSchemaValid ValidateObjectID a \<longleftrightarrow>
     StringLenBetween 1 150 (rot_name a) \<and>
     list_all (whenSet (\<lambda>g. list_all (validParticipant ValidateObjectID) (pg_participants g)))
       (rot_participant_groups a) \<and>
     StringInSlice [''none'', ''daily'', ''weekly'', ''monthly'', ''custom''] (rot_period a) \<and>
     1 \<le> length (rot_shift_timeslots a) \<and>
     list_all validTimeslot (rot_shift_timeslots a) \<and>
     whenSet (StringInSlice [''day'', ''week'', ''month'']) (rot_custom_period_unit a) \<and>
     StringInSlice [''rotation'', ''day'', ''week'', ''month'']
       (rot_change_participants_unit a)"

text \<open>
  The conditions on the custom period under which the create handler returns early,
  as conditions on the configuration.
\<close>

definition customPeriodViolation :: "RotationAttrs \<Rightarrow> bool" where
  "customPeriodViolation a \<longleftrightarrow>
     (rot_period a = ''custom'' \<and> GetInt (rot_custom_period_frequency a) = 0) \<or>
     (rot_period a = ''custom'' \<and> GetString (rot_custom_period_unit a) = []) \<or>
     (rot_period a \<noteq> ''custom'' \<and> GetInt (rot_custom_period_frequency a) \<noteq> 0) \<or>
     (rot_period a \<noteq> ''custom'' \<and> GetString (rot_custom_period_unit a) \<noteq> []) \<or>
     (rot_period a \<noteq> ''custom'' \<and> length (rot_shift_timeslots a) > 1)"

text \<open>
  The same conditions on a configuration that passes the schema, where a unit that is
  set is not empty: in terms of what is set.
\<close>

definition crossFieldViolation :: "RotationAttrs \<Rightarrow> bool" where
  "crossFieldViolation a \<longleftrightarrow>
     (rot_period a = ''custom'' \<and>
        (rot_custom_period_frequency a = None \<or> rot_custom_period_frequency a = Some 0 \<or>
         rot_custom_period_unit a = None)) \<or>
     (rot_period a \<noteq> ''custom'' \<and>
        ((\<exists>f. rot_custom_period_frequency a = Some f \<and> f \<noteq> 0) \<or>
         rot_custom_period_unit a \<noteq> None \<or> length (rot_shift_timeslots a) > 1))"

text \<open>
  The other early returns of the create handler: an element of
  \<^verbatim>\<open>participant_groups\<close> that is not a map, or a \<^verbatim>\<open>Decode\<close> that fails where
  the handler reaches it.
\<close>

definition decodeFailure :: "('e, 's, 'rot, 'z) RotationEnv_scheme \<Rightarrow> RotationAttrs \<Rightarrow> bool" where
  "decodeFailure env a \<longleftrightarrow>
     (\<exists>g \<in> set (rot_participant_groups a).
        case g of None \<Rightarrow> True
        | Some m \<Rightarrow> (case DecodeParticipants env (pg_participants m) of
                       Inl _ \<Rightarrow> True | Inr _ \<Rightarrow> False)) \<or>
     (rot_shift_timeslots a \<noteq> [] \<and>
      (rot_period a = ''custom'' \<or> length (rot_shift_timeslots a) \<le> 1) \<and>
      (case DecodeTimeslots env (rot_shift_timeslots a) of Inl _ \<Rightarrow> True | Inr _ \<Rightarrow> False))"

section \<open>Schedules of package api\<close>

text \<open>
  The structs of \<^verbatim>\<open>schedules.go\<close>. \<^verbatim>\<open>OwnerRef\<close> is declared elsewhere; its field
  \<^verbatim>\<open>ID\<close> is the one read here. A pointer field is an option, \<open>None\<close> for \<^verbatim>\<open>nil\<close>.
\<close>

record OwnerRef =
  OwnerRef_ID :: string

record Schedule =
  Schedule_ID :: string
  Schedule_Name :: string
  Schedule_Slug :: string
  Schedule_Colour :: string
  Schedule_Description :: string
  Schedule_Owner :: OwnerRef

record Owner =
  Owner_ID :: string
  Owner_Type :: string

record Tag =
  Tag_Key :: string
  Tag_Value :: string
  Tag_Color :: string

record NewSchedule =
  NS_ID :: int
  NS_Name :: string
  NS_Description :: string
  NS_TimeZone :: string
  NS_TeamID :: string
  NS_Tags :: "Tag list"
  NS_Owner :: "Owner option"

text \<open>
  The values of a \<^verbatim>\<open>tf.M\<close> (\<^verbatim>\<open>map[string]any\<close>); a map is the list of its entries,
  with distinct keys, and \<^verbatim>\<open>m[k] = v\<close> is \<open>AList.update k v m\<close>.
\<close>

datatype tfValue =
    VString string
  | VInt int
  | VList "tfValue list"
  | VMap "(string \<times> tfValue) list"

type_synonym M = "(string \<times> tfValue) list"

text \<open>
  Modelled from the spec: \<^verbatim>\<open>tf.Encode\<close> of package \<^verbatim>\<open>tf\<close>, which these sources do
  not hold, the ``struct-tag-driven reflection-based marshalling'': the fields of a
  struct are visited in the order of their declaration, and a field is stored under its
  \<^verbatim>\<open>tf\<close> tag unless the tag is \<^verbatim>\<open>-\<close>. A struct is seen as the list of its tags and
  field values.
\<close>

fun encodeFields :: "(string \<times> tfValue) list \<Rightarrow> M \<Rightarrow> M" where
  "encodeFields [] m = m"
| "encodeFields ((t, v) # fs) m =
     encodeFields fs (if t = ''-'' then m else AList.update t v m)"

definition Tag_fields :: "Tag \<Rightarrow> (string \<times> tfValue) list" where
  "Tag_fields tag =
     [(''key'', VString (Tag_Key tag)), (''value'', VString (Tag_Value tag)),
      (''color'', VString (Tag_Color tag))]"

definition Owner_fields :: "Owner \<Rightarrow> (string \<times> tfValue) list" where
  "Owner_fields owner =
     [(''id'', VString (Owner_ID owner)), (''type'', VString (Owner_Type owner))]"

definition Schedule_fields :: "Schedule \<Rightarrow> (string \<times> tfValue) list" where
  "Schedule_fields s =
     [(''id'', VString (Schedule_ID s)), (''name'', VString (Schedule_Name s)),
      (''-'', VString (Schedule_Slug s)), (''color'', VString (Schedule_Colour s)),
      (''description'', VString (Schedule_Description s)),
      (''-'', VMap [(''id'', VString (OwnerRef_ID (Schedule_Owner s)))])]"

definition NewSchedule_fields :: "NewSchedule \<Rightarrow> (string \<times> tfValue) list" where
  "NewSchedule_fields s =
     [(''id'', VInt (NS_ID s)), (''name'', VString (NS_Name s)),
      (''description'', VString (NS_Description s)),
      (''timezone'', VString (NS_TimeZone s)), (''team_id'', VString (NS_TeamID s)),
      (''tags'', VList (map (\<lambda>tag. VMap (encodeFields (Tag_fields tag) [])) (NS_Tags s))),
      (''-'', (case NS_Owner s of None \<Rightarrow> VMap []
               | Some owner \<Rightarrow> VMap (encodeFields (Owner_fields owner) [])))]"

definition tf_Encode_Schedule :: "Schedule \<Rightarrow> 'e + M" where
  "tf_Encode_Schedule s = Inr (encodeFields (Schedule_fields s) [])"

definition tf_Encode_NewSchedule :: "NewSchedule \<Rightarrow> 'e + M" where
  "tf_Encode_NewSchedule s = Inr (encodeFields (NewSchedule_fields s) [])"

definition tf_Encode_Tag :: "Tag \<Rightarrow> 'e + M" where
  "tf_Encode_Tag tag = Inr (encodeFields (Tag_fields tag) [])"

text \<open>
  Modelled from the spec: \<^verbatim>\<open>tf.EncodeSlice\<close>, which these sources do not hold: the
  elements are encoded one after the other, each by its \<^verbatim>\<open>Encode\<close> method, and the
  first error ends the encoding.
\<close>

fun tf_EncodeSlice :: "('a \<Rightarrow> 'e + M) \<Rightarrow> 'a list \<Rightarrow> 'e + tfValue list" where
  "tf_EncodeSlice enc [] = Inr []"
| "tf_EncodeSlice enc (x # xs) =
     (case enc x of
        Inl err \<Rightarrow> Inl err
      | Inr m \<Rightarrow> (case tf_EncodeSlice enc xs of
                    Inl err \<Rightarrow> Inl err
                  | Inr ms \<Rightarrow> Inr (VMap m # ms)))"

text \<open>
  \<^verbatim>\<open>(s *Schedule) Encode\<close>, \<^verbatim>\<open>(tag Tag) Encode\<close> and \<^verbatim>\<open>(s *NewSchedule) Encode\<close>,
  over the \<^verbatim>\<open>tf.Encode\<close> and \<^verbatim>\<open>tf.EncodeSlice\<close> they call. \<^verbatim>\<open>s.Owner.ID\<close> on a
  nil \<^verbatim>\<open>Owner\<close> is a nil pointer dereference: the call panics and returns nothing.
\<close>

datatype ('e, 'a) outcome = NilDereference | Returns "'e + 'a"

definition Schedule_Encode :: "(Schedule \<Rightarrow> 'e + M) \<Rightarrow> Schedule \<Rightarrow> 'e + M" where
  "Schedule_Encode tfEncode s =
     (case tfEncode s of
        Inl err \<Rightarrow> Inl err
      | Inr m \<Rightarrow> Inr (AList.update ''team_id'' (VString (OwnerRef_ID (Schedule_Owner s))) m))"

definition Tag_Encode :: "(Tag \<Rightarrow> 'e + M) \<Rightarrow> Tag \<Rightarrow> 'e + M" where
  "Tag_Encode tfEncode tag = tfEncode tag"

definition NewSchedule_Encode ::
  "(NewSchedule \<Rightarrow> 'e + M) \<Rightarrow> (Tag list \<Rightarrow> 'e + tfValue list) \<Rightarrow> NewSchedule \<Rightarrow>
     ('e, M) outcome" where
  "NewSchedule_Encode tfEncode tfEncodeSlice s =
     (case tfEncode s of
        Inl err \<Rightarrow> Returns (Inl err)
      | Inr m \<Rightarrow>
          (case NS_Owner s of
             None \<Rightarrow> NilDereference
           | Some owner \<Rightarrow>
               (let m = AList.update ''team_id'' (VString (Owner_ID owner)) m
                in case tfEncodeSlice (NS_Tags s) of
                     Inl terr \<Rightarrow> Returns (Inl terr)
                   | Inr tagsEncoded \<Rightarrow>
                       Returns (Inr (AList.update ''tags'' (VList tagsEncoded) m)))))"

section \<open>Parsing a schedule ID\<close>

text \<open>
  \<^verbatim>\<open>strconv.ParseUint(s, 10, 64)\<close> and \<^verbatim>\<open>strconv.ParseInt(s, 10, 64)\<close> of the Go
  library, on 64-bit words. In base 10 every byte that is not a decimal digit is a syntax
  error (a letter is a digit of a larger base, an underscore belongs to base 0). An
  overflow ends the loop at once with the largest value and a range error.
\<close>

datatype NumError = ErrSyntax | ErrRange

definition isDigit :: "char \<Rightarrow> bool" where
  "isDigit c \<longleftrightarrow> (48::nat) \<le> of_char c \<and> (of_char c :: nat) \<le> 57"

definition maxUint64 :: "64 word" where
  "maxUint64 = - 1"

fun parseUintLoop :: "string \<Rightarrow> 64 word \<Rightarrow> 64 word \<times> NumError option" where
  "parseUintLoop [] n = (n, None)"
| "parseUintLoop (c # cs) n =
     (if \<not> isDigit c then (0, Some ErrSyntax)
      else
        (let d = (of_char c - 48 :: 64 word) in
         if n \<ge> maxUint64 div 10 + 1 then (maxUint64, Some ErrRange)
         else
           (let n' = n * 10; n1 = n' + d in
            if n1 < n' then (maxUint64, Some ErrRange)
            else parseUintLoop cs n1)))"

definition ParseUint :: "string \<Rightarrow> 64 word \<times> NumError option" where
  "ParseUint s = (if s = [] then (0, Some ErrSyntax) else parseUintLoop s 0)"

definition ParseInt :: "string \<Rightarrow> 64 word \<times> NumError option" where
  "ParseInt s0 =
     (if s0 = [] then (0, Some ErrSyntax)
      else
        (let (neg, s) = (if hd s0 = CHR ''+'' then (False, tl s0)
                         else if hd s0 = CHR ''-'' then (True, tl s0)
                         else (False, s0));
             (un, err) = ParseUint s
         in if err \<noteq> None \<and> err \<noteq> Some ErrRange then (0, err)
            else
              (let cutoff = (2 ^ 63 :: 64 word) in
               if \<not> neg \<and> un \<ge> cutoff then (cutoff - 1, Some ErrRange)
               else if neg \<and> un > cutoff then (- cutoff, Some ErrRange)
               else (if neg then - un else un, None))))"

section \<open>The schedule API wrappers\<close>

text \<open>
  A request of the REST client and a request of the GraphQL client. The struct a GraphQL
  request fills names its query; the variables are the entries of the map the wrapper
  builds.
\<close>

record CreateUpdateScheduleReq =
  CUS_Name :: string
  CUS_Color :: string
  CUS_Description :: string
  CUS_TeamID :: string

record HttpRequest =
  http_method :: string
  http_url :: string
  http_body :: "CreateUpdateScheduleReq option"

datatype QueryStruct = ScheduleQueryStruct | ScheduleMutateStruct | ScheduleMutateDeleteStruct

datatype GraphQLValue = GInt64 "64 word" | GNewSchedule NewSchedule

record GraphQLReq =
  gql_operation :: string
  gql_struct :: QueryStruct
  gql_variables :: "(string \<times> GraphQLValue) list"

datatype Wire = Http HttpRequest | GraphQL GraphQLReq

text \<open>
  \<^verbatim>\<open>api.Client\<close>: its base URL, and the generic \<^verbatim>\<open>Request\<close>, \<^verbatim>\<open>RequestSlice\<close> and
  \<^verbatim>\<open>GraphQLRequest\<close> of the package, which these sources do not hold, at the types the
  wrappers use them at. Each sends its request to the platform and gives the decoded
  response or the error.
\<close>

record ('e, 's) Client =
  BaseURLV3 :: string
  Request_Schedule :: "HttpRequest \<Rightarrow> 's \<Rightarrow> ('e + Schedule) \<times> 's"
  RequestSlice_Schedule :: "HttpRequest \<Rightarrow> 's \<Rightarrow> ('e + Schedule list) \<times> 's"
  Request_any :: "HttpRequest \<Rightarrow> 's \<Rightarrow> ('e + unit) \<times> 's"
  GraphQLRequest :: "GraphQLReq \<Rightarrow> 's \<Rightarrow> ('e + NewSchedule) \<times> 's"

definition GetScheduleById ::
  "('e, 's) Client \<Rightarrow> string \<Rightarrow> string \<Rightarrow> ('s, Wire) World \<Rightarrow>
     ('e + Schedule) \<times> ('s, Wire) World" where
  "GetScheduleById client teamID id' w =
     (let url = BaseURLV3 client @ ''/schedules/'' @ id' @ ''?owner_id='' @ teamID;
          req = \<lparr>http_method = ''GET'', http_url = url, http_body = None\<rparr>
      in callApi (Request_Schedule client req) (Http req) w)"

definition ListSchedules ::
  "('e, 's) Client \<Rightarrow> string \<Rightarrow> ('s, Wire) World \<Rightarrow>
     ('e + Schedule list) \<times> ('s, Wire) World" where
  "ListSchedules client teamID w =
     (let url = BaseURLV3 client @ ''/schedules?owner_id='' @ teamID;
          req = \<lparr>http_method = ''GET'', http_url = url, http_body = None\<rparr>
      in callApi (RequestSlice_Schedule client req) (Http req) w)"

definition CreateSchedule ::
  "('e, 's) Client \<Rightarrow> CreateUpdateScheduleReq \<Rightarrow> ('s, Wire) World \<Rightarrow>
     ('e + Schedule) \<times> ('s, Wire) World" where
  "CreateSchedule client body w =
     (let url = BaseURLV3 client @ ''/schedules'';
          req = \<lparr>http_method = ''POST'', http_url = url, http_body = Some body\<rparr>
      in callApi (Request_Schedule client req) (Http req) w)"

definition UpdateSchedule ::
  "('e, 's) Client \<Rightarrow> string \<Rightarrow> CreateUpdateScheduleReq \<Rightarrow> ('s, Wire) World \<Rightarrow>
     ('e + Schedule) \<times> ('s, Wire) World" where
  "UpdateSchedule client id' body w =
     (let url = BaseURLV3 client @ ''/schedules/'' @ id';
          req = \<lparr>http_method = ''PUT'', http_url = url, http_body = Some body\<rparr>
      in callApi (Request_Schedule client req) (Http req) w)"

definition DeleteSchedule ::
  "('e, 's) Client \<Rightarrow> string \<Rightarrow> ('s, Wire) World \<Rightarrow> ('e + unit) \<times> ('s, Wire) World" where
  "DeleteSchedule client id' w =
     (let url = BaseURLV3 client @ ''/schedules/'' @ id';
          req = \<lparr>http_method = ''DELETE'', http_url = url, http_body = None\<rparr>
      in callApi (Request_any client req) (Http req) w)"

text \<open>
  The two wrappers that parse the ID: the error of \<^verbatim>\<open>ParseInt\<close> only builds a
  diagnostic that is dropped (\<^verbatim>\<open>diag.Errorf\<close> has no effect), and the value
  \<^verbatim>\<open>ParseInt\<close> returned goes into the variables.
\<close>

definition DeleteScheduleV2ByID ::
  "('e, 's) Client \<Rightarrow> string \<Rightarrow> ('s, Wire) World \<Rightarrow>
     ('e + NewSchedule) \<times> ('s, Wire) World" where
  "DeleteScheduleV2ByID client ID w =
     (let (id', err) = ParseInt ID;
          variables = [(''ID'', GInt64 id')];
          req = \<lparr>gql_operation = ''mutate'', gql_struct = ScheduleMutateDeleteStruct,
                 gql_variables = variables\<rparr>
      in callApi (GraphQLRequest client req) (GraphQL req) w)"

definition GetScheduleV2ById ::
  "('e, 's) Client \<Rightarrow> string \<Rightarrow> ('s, Wire) World \<Rightarrow>
     ('e + NewSchedule) \<times> ('s, Wire) World" where
  "GetScheduleV2ById client ID w =
     (let (id', err) = ParseInt ID;
          variables = [(''ID'', GInt64 id')];
          req = \<lparr>gql_operation = ''query'', gql_struct = ScheduleQueryStruct,
                 gql_variables = variables\<rparr>
      in callApi (GraphQLRequest client req) (GraphQL req) w)"

definition CreateScheduleV2 ::
  "('e, 's) Client \<Rightarrow> NewSchedule \<Rightarrow> ('s, Wire) World \<Rightarrow>
     ('e + NewSchedule) \<times> ('s, Wire) World" where
  "CreateScheduleV2 client payload w =
     (let variables = [(''input'', GNewSchedule payload)];
          req = \<lparr>gql_operation = ''mutate'', gql_struct = ScheduleMutateStruct,
                 gql_variables = variables\<rparr>
      in callApi (GraphQLRequest client req) (GraphQL req) w)"

definition sampleClient :: "(string, unit) Client" where
  "sampleClient =
     \<lparr>BaseURLV3 = ''https://api.example/v3'',
      Request_Schedule = (\<lambda>req s. (Inl ''unavailable'', s)),
      RequestSlice_Schedule = (\<lambda>req s. (Inr [], s)),
      Request_any = (\<lambda>req s. (Inr (), s)),
      GraphQLRequest = (\<lambda>req s. (Inl ''unavailable'', s))\<rparr>"

section \<open>Sample environments\<close>

text \<open>
  A remote platform without state whose errors are their texts, on which the theorems
  below are instantiated: it creates webform 42 and rotation 9, fails on rotation 500 and knows no other.
\<close>

definition sampleWebformEnv ::
  "(string, unit, ServiceBlock, SeverityBlock, unit) WebformEnv" where
  "sampleWebformEnv =
     \<lparr>IsResourceNotFoundError = (\<lambda>e. e = ''not found''),
      CreateWebform = (\<lambda>teamID req s. (Inr 42, s)),
      GetWebformById = (\<lambda>teamID i s. (if i = ''42'' then Inr () else Inl ''not found'', s)),
      UpdateWebform = (\<lambda>teamID i req s. (if i = ''42'' then Inr () else Inl ''not found'', s)),
      DeleteWebform = (\<lambda>teamID i s. (if i = ''42'' then Inr () else Inl ''not found'', s)),
      DecodeServices = Inr,
      DecodeSeverity = Inr,
      EncodeAndSetWebform = (\<lambda>webform d. (None, d))\<rparr>"

definition sampleWebformAttrs :: WebformAttrs where
  "sampleWebformAttrs =
     \<lparr>wf_name = ''example webform name'', wf_team_id = ''team1'',
      wf_form_owner_type = ''user'', wf_form_owner_id = ''user1'',
      wf_form_owner_name = ''owner'', wf_host_name = [], wf_is_cname = False,
      wf_header = ''formHeader'', wf_description = ''formDescription'',
      wf_title = ''formTitle'', wf_footer_text = ''footerText'',
      wf_footer_link = ''footerLink'',
      wf_email_on = [''acknowledged'', ''resolved'', ''triggered''],
      wf_services = [\<lparr>svc_service_id = ''s1'', svc_webform_id = 0, svc_name = ''svc'',
                       svc_alias = []\<rparr>],
      wf_severity = [\<lparr>sev_type = ''severityType'', sev_description = ''severityDescription''\<rparr>],
      wf_tags = [(''tagKey'', ''tagValue''), (''tagKey2'', ''tagValue2'')]\<rparr>"

definition sampleRotationEnv :: "(string, unit, unit) RotationEnv" where
  "sampleRotationEnv =
     \<lparr>IsResourceNotFoundError = (\<lambda>e. e = ''not found''),
      CreateScheduleRotation = (\<lambda>scheduleID req s. (Inr 9, s)),
      GetScheduleRotationById =
        (\<lambda>i s. (if i = ''9'' then Inr () else if i = ''500'' then Inl ''internal error''
                  else Inl ''not found'', s)),
      DeleteScheduleRotationByID =
        (\<lambda>i s. (if i = ''9'' then Inr () else Inl ''internal error'', s)),
      DecodeParticipants =
        (\<lambda>ps. Inr (map (\<lambda>p. \<lparr>Participant_ID = 0, Participant_Type = pt_type p\<rparr>) ps)),
      DecodeTimeslots =
        (\<lambda>ts. Inr (map (\<lambda>t. \<lparr>StartHour = ts_start_hour t, StartMinute = ts_start_minute t,
                                Duration = ts_duration t, DayOfWeek = 0\<rparr>) ts)),
      ErrorText = (\<lambda>e. e),
      EncodeAndSetRotation = (\<lambda>rotation d. (None, d))\<rparr>"

definition sampleRotationAttrs :: RotationAttrs where
  "sampleRotationAttrs =
     \<lparr>rot_schedule_id = 3, rot_name = ''day shift'', rot_participant_groups = [],
      rot_start_date = ''2024-01-01'', rot_period = ''daily'',
      rot_shift_timeslots = [\<lparr>ts_start_hour = 9, ts_start_minute = 0, ts_duration = 480,
                               ts_day_of_week = None\<rparr>],
      rot_custom_period_frequency = None, rot_custom_period_unit = None,
      rot_change_participants_frequency = 1, rot_change_participants_unit = ''rotation'',
      rot_end_date = None, rot_ends_after_iterations = None\<rparr>"

definition emptyWorld :: "(unit, 'c) World" where
  "emptyWorld = \<lparr>server = (), calls = []\<rparr>"

section \<open>Import identifier parsing\<close>

lemma Index_None: "Index s sep = None \<longleftrightarrow> sep \<notin> set s"
  by (induction s) (auto split: option.splits)

lemma Index_Some_D:
  "Index s sep = Some m \<Longrightarrow> m < length s \<and> s ! m = sep \<and> sep \<notin> set (take m s)"
proof (induction s arbitrary: m)
  case Nil
  then show ?case by simp
next
  case (Cons x xs)
  show ?case
  proof (cases "x = sep")
    case True
    with Cons.prems show ?thesis by simp
  next
    case False
    with Cons.prems obtain k where k: "Index xs sep = Some k" "m = Suc k"
      by (auto split: option.splits)
    from Cons.IH[OF k(1)] False k(2) show ?thesis by simp
  qed
qed

lemma Index_append:
  "sep \<notin> set a \<Longrightarrow> Index (a @ sep # r) sep = Some (length a)"
  by (induction a) auto

lemma Index_split:
  assumes "Index s sep = Some m"
  shows "s = take m s @ sep # drop (Suc m) s" and "sep \<notin> set (take m s)"
proof -
  from Index_Some_D[OF assms] have m: "m < length s" "s ! m = sep" "sep \<notin> set (take m s)"
    by simp_all
  from m(1) have "s = take m s @ s ! m # drop (Suc m) s" by (rule id_take_nth_drop)
  with m(2) show "s = take m s @ sep # drop (Suc m) s" by simp
  from m(3) show "sep \<notin> set (take m s)" .
qed


lemma genSplitLoop_length: "length (genSplitLoop s sep k) \<le> Suc k"
  by (induction k arbitrary: s) (auto split: option.splits)

lemma genSplitLoop_2:
  "genSplitLoop s sep (Suc (Suc 0)) =
     (case Index s sep of
        None \<Rightarrow> [s]
      | Some m \<Rightarrow>
          (case Index (drop (Suc m) s) sep of
             None \<Rightarrow> [take m s, drop (Suc m) s]
           | Some m' \<Rightarrow> [take m s, take m' (drop (Suc m) s), drop (Suc m') (drop (Suc m) s)]))"
  by (simp split: option.splits)

lemma SplitN_3_short: "length s \<le> 1 \<Longrightarrow> length (SplitN s sep 3) \<le> 2"
  using genSplitLoop_length[of s sep "length s"] by (simp add: SplitN_def)

lemma SplitN_3_long: "2 \<le> length s \<Longrightarrow> SplitN s sep 3 = genSplitLoop s sep (Suc (Suc 0))"
  by (simp add: SplitN_def numeral_2_eq_2)

lemma SplitN_3_threeParts:
  assumes "threeParts s a b c"
  shows "SplitN s (CHR '':'') 3 = [a, b, c]"
proof -
  from assms have s: "s = a @ CHR '':'' # b @ CHR '':'' # c"
    and a: "CHR '':'' \<notin> set a" and b: "CHR '':'' \<notin> set b"
    by (simp_all add: threeParts_def)
  have len: "2 \<le> length s" by (simp add: s)
  have i1: "Index s (CHR '':'') = Some (length a)"
    unfolding s using a by (rule Index_append)
  have d1: "drop (Suc (length a)) s = b @ CHR '':'' # c" by (simp add: s)
  have t1: "take (length a) s = a" by (simp add: s)
  have i2: "Index (b @ CHR '':'' # c) (CHR '':'') = Some (length b)"
    using b by (rule Index_append)
  show ?thesis
    by (simp only: SplitN_3_long[OF len] genSplitLoop_2 i1 d1 t1 i2 option.case)
       simp
qed

lemma SplitN_3_three:
  assumes "length (SplitN s (CHR '':'') 3) = 3"
  shows "threeParts s (SplitN s (CHR '':'') 3 ! 0) (SplitN s (CHR '':'') 3 ! 1)
           (SplitN s (CHR '':'') 3 ! 2)"
proof -
  have len: "2 \<le> length s"
  proof (rule ccontr)
    assume "\<not> 2 \<le> length s"
    then have "length s \<le> 1" by simp
    from SplitN_3_short[OF this, of "CHR '':''"] assms show False by simp
  qed
  note eq = SplitN_3_long[OF len, of "CHR '':''"]
  from assms obtain m where m: "Index s (CHR '':'') = Some m"
    by (cases "Index s (CHR '':'')") (simp_all add: eq)
  from assms m obtain m' where m': "Index (drop (Suc m) s) (CHR '':'') = Some m'"
    by (cases "Index (drop (Suc m) s) (CHR '':'')") (simp_all add: eq)
  have parts: "SplitN s (CHR '':'') 3 =
      [take m s, take m' (drop (Suc m) s), drop (Suc m') (drop (Suc m) s)]"
    by (simp only: eq genSplitLoop_2 m m' option.case)
  from Index_split[OF m] Index_split[OF m']
  have "threeParts s (take m s) (take m' (drop (Suc m) s)) (drop (Suc m') (drop (Suc m) s))"
    unfolding threeParts_def by metis
  then show ?thesis by (simp add: parts)
qed

lemma SplitN_3_iff: "SplitN s (CHR '':'') 3 = [a, b, c] \<longleftrightarrow> threeParts s a b c"
proof
  assume eq: "SplitN s (CHR '':'') 3 = [a, b, c]"
  then have "length (SplitN s (CHR '':'') 3) = 3" by simp
  from SplitN_3_three[OF this] show "threeParts s a b c" by (simp add: eq)
next
  assume "threeParts s a b c"
  then show "SplitN s (CHR '':'') 3 = [a, b, c]" by (rule SplitN_3_threeParts)
qed

lemma length_3_parts: "length xs = 3 \<Longrightarrow> xs = [xs ! 0, xs ! 1, xs ! 2]"
  by (cases xs; cases "tl xs"; cases "tl (tl xs)") auto

text \<open>
  Claim C4. \<^verbatim>\<open>parse3PartImportID\<close> succeeds exactly when splitting the string on
  \<open>:\<close> into at most three pieces gives three pieces, none of them empty; it then returns
  these pieces in their order (that is, the string is \<open>a:b:c\<close> with no separator in
  \<open>a\<close> and \<open>b\<close>); otherwise it returns three empty strings and the error.
\<close>

theorem parse3PartImportID_correct:
  "(parse3PartImportID s = (a, b, c, None) \<longleftrightarrow>
      SplitN s (CHR '':'') 3 = [a, b, c] \<and> a \<noteq> [] \<and> b \<noteq> [] \<and> c \<noteq> [])
   \<and> (SplitN s (CHR '':'') 3 = [a, b, c] \<longleftrightarrow> threeParts s a b c)
   \<and> ((\<nexists>a b c. SplitN s (CHR '':'') 3 = [a, b, c] \<and> a \<noteq> [] \<and> b \<noteq> [] \<and> c \<noteq> []) \<longrightarrow>
        parse3PartImportID s = ([], [], [], Some (importIDError s)))"
proof (intro conjI)
  let ?p = "SplitN s (CHR '':'') 3"
  show "parse3PartImportID s = (a, b, c, None) \<longleftrightarrow>
      ?p = [a, b, c] \<and> a \<noteq> [] \<and> b \<noteq> [] \<and> c \<noteq> []"
  proof
    assume ok: "parse3PartImportID s = (a, b, c, None)"
    then have l: "length ?p = 3" and ne: "?p ! 0 \<noteq> []" "?p ! 1 \<noteq> []" "?p ! 2 \<noteq> []"
      and abc: "?p ! 0 = a" "?p ! 1 = b" "?p ! 2 = c"
      by (auto simp: parse3PartImportID_def Let_def split: if_splits)
    from length_3_parts[OF l] abc have "?p = [a, b, c]" by simp
    with ne abc show "?p = [a, b, c] \<and> a \<noteq> [] \<and> b \<noteq> [] \<and> c \<noteq> []" by simp
  next
    assume "?p = [a, b, c] \<and> a \<noteq> [] \<and> b \<noteq> [] \<and> c \<noteq> []"
    then show "parse3PartImportID s = (a, b, c, None)"
      by (simp add: parse3PartImportID_def)
  qed
  show "?p = [a, b, c] \<longleftrightarrow> threeParts s a b c" by (rule SplitN_3_iff)
  show "(\<nexists>a b c. ?p = [a, b, c] \<and> a \<noteq> [] \<and> b \<noteq> [] \<and> c \<noteq> []) \<longrightarrow>
        parse3PartImportID s = ([], [], [], Some (importIDError s))"
  proof
    assume no: "\<nexists>a b c. ?p = [a, b, c] \<and> a \<noteq> [] \<and> b \<noteq> [] \<and> c \<noteq> []"
    show "parse3PartImportID s = ([], [], [], Some (importIDError s))"
    proof (cases "length ?p \<noteq> 3 \<or> ?p ! 0 = [] \<or> ?p ! 1 = [] \<or> ?p ! 2 = []")
      case True
      then show ?thesis by (simp add: parse3PartImportID_def Let_def)
    next
      case False
      then have l: "length ?p = 3" by simp
      from length_3_parts[OF l] False no show ?thesis by metis
    qed
  qed
qed

theorem parse3PartImportID_correct_witness:
  "parse3PartImportID ''team:oncall:day:1'' = (''team'', ''oncall'', ''day:1'', None)
   \<and> threeParts ''team:oncall:day:1'' ''team'' ''oncall'' ''day:1''
   \<and> (\<nexists>a b c. SplitN ''team:oncall'' (CHR '':'') 3 = [a, b, c] \<and> a \<noteq> [] \<and> b \<noteq> [] \<and> c \<noteq> [])
   \<and> parse3PartImportID ''team:oncall'' =
       ([], [], [], Some (importIDError ''team:oncall''))"
proof -
  have sp: "SplitN ''team:oncall:day:1'' (CHR '':'') 3 = [''team'', ''oncall'', ''day:1'']"
    by code_simp
  have sp2: "SplitN ''team:oncall'' (CHR '':'') 3 = [''team'', ''oncall'']"
    by code_simp
  have no: "\<nexists>a b c. SplitN ''team:oncall'' (CHR '':'') 3 = [a, b, c] \<and> a \<noteq> [] \<and> b \<noteq> [] \<and> c \<noteq> []"
    by (simp add: sp2)
  from parse3PartImportID_correct[of "''team:oncall:day:1''" "''team''" "''oncall''" "''day:1''"] sp
  have "parse3PartImportID ''team:oncall:day:1'' = (''team'', ''oncall'', ''day:1'', None)"
    and "threeParts ''team:oncall:day:1'' ''team'' ''oncall'' ''day:1''"
    by simp_all
  moreover from parse3PartImportID_correct[of "''team:oncall''"] no
  have "parse3PartImportID ''team:oncall'' = ([], [], [], Some (importIDError ''team:oncall''))"
    by blast
  ultimately show ?thesis using no by blast
qed

section \<open>Drift detection\<close>

lemma callApi_eq:
  "f (server w) = (r, s') \<Longrightarrow> callApi f c w = (r, w\<lparr>server := s', calls := calls w @ [c]\<rparr>)"
  by (simp add: callApi_def)

lemma resourceWebformRead_error:
  assumes "wf_team_id (attrs d) \<noteq> []"
    and "GetWebformById env (wf_team_id (attrs d)) (Id d) (server w) = (Inl err, s')"
  shows "resourceWebformRead env d w =
     (if IsResourceNotFoundError env err then None else Some (FromErr err),
      if IsResourceNotFoundError env err then SetId [] d else d,
      w\<lparr>server := s', calls := calls w @ [GetWebformByIdCall (wf_team_id (attrs d)) (Id d)]\<rparr>)"
  using assms by (simp add: resourceWebformRead_def Let_def callApi_eq)

lemma resourceWebformDelete_error:
  assumes "wf_team_id (attrs d) \<noteq> []"
    and "DeleteWebform env (wf_team_id (attrs d)) (Id d) (server w) = (Inl err, s')"
  shows "resourceWebformDelete env d w =
     (if IsResourceNotFoundError env err then None else Some (FromErr err),
      if IsResourceNotFoundError env err then SetId [] d else d,
      w\<lparr>server := s', calls := calls w @ [DeleteWebformCall (wf_team_id (attrs d)) (Id d)]\<rparr>)"
  using assms by (simp add: resourceWebformDelete_def Let_def callApi_eq)

lemma resourceScheduleRotationRead_error:
  assumes "GetScheduleRotationById env (Id d) (server w) = (Inl err, s')"
  shows "resourceScheduleRotationRead env d w =
     (if IsResourceNotFoundError env err then None else Some (FromErr err),
      if IsResourceNotFoundError env err then SetId [] d else d,
      w\<lparr>server := s', calls := calls w @ [GetScheduleRotationByIdCall (Id d)]\<rparr>)"
  using assms by (simp add: resourceScheduleRotationRead_def Let_def callApi_eq)


text \<open>
  Claim C1. When the API call of the webform read, of the schedule-rotation read or of
  the webform delete fails with a resource-not-found error, the handler sets the
  resource ID to the empty string and returns no diagnostics; on any other error it
  returns that error and leaves the resource data, and so the ID, as it was. The
  webform handlers make the call when \<^verbatim>\<open>team_id\<close> is set, which is the case the
  claim is about.
\<close>

theorem drift_detection:
  "(wf_team_id (attrs d) \<noteq> [] \<and>
    GetWebformById env (wf_team_id (attrs d)) (Id d) (server w) = (Inl err, s') \<longrightarrow>
      fst (resourceWebformRead env d w) =
        (if IsResourceNotFoundError env err then None else Some (FromErr err)) \<and>
      fst (snd (resourceWebformRead env d w)) =
        (if IsResourceNotFoundError env err then d\<lparr>Id := []\<rparr> else d))
   \<and> (GetScheduleRotationById renv (Id rd) (server rw) = (Inl rerr, rs') \<longrightarrow>
      fst (resourceScheduleRotationRead renv rd rw) =
        (if IsResourceNotFoundError renv rerr then None else Some (FromErr rerr)) \<and>
      fst (snd (resourceScheduleRotationRead renv rd rw)) =
        (if IsResourceNotFoundError renv rerr then rd\<lparr>Id := []\<rparr> else rd))
   \<and> (wf_team_id (attrs d) \<noteq> [] \<and>
    DeleteWebform env (wf_team_id (attrs d)) (Id d) (server w) = (Inl derr, ds') \<longrightarrow>
      fst (resourceWebformDelete env d w) =
        (if IsResourceNotFoundError env derr then None else Some (FromErr derr)) \<and>
      fst (snd (resourceWebformDelete env d w)) =
        (if IsResourceNotFoundError env derr then d\<lparr>Id := []\<rparr> else d))"
  by (simp add: resourceWebformRead_error resourceWebformDelete_error
      resourceScheduleRotationRead_error SetId_def)

theorem drift_detection_witness:
  "fst (resourceWebformRead sampleWebformEnv \<lparr>Id = ''7'', attrs = sampleWebformAttrs\<rparr>
          emptyWorld) = None
   \<and> Id (fst (snd (resourceWebformRead sampleWebformEnv
          \<lparr>Id = ''7'', attrs = sampleWebformAttrs\<rparr> emptyWorld))) = []
   \<and> fst (resourceScheduleRotationRead sampleRotationEnv
          \<lparr>Id = ''500'', attrs = sampleRotationAttrs\<rparr> emptyWorld) =
        Some (FromErr ''internal error'')
   \<and> Id (fst (snd (resourceScheduleRotationRead sampleRotationEnv
          \<lparr>Id = ''500'', attrs = sampleRotationAttrs\<rparr> emptyWorld))) = ''500''
   \<and> fst (resourceWebformDelete sampleWebformEnv \<lparr>Id = ''7'', attrs = sampleWebformAttrs\<rparr>
          emptyWorld) = None
   \<and> Id (fst (snd (resourceWebformDelete sampleWebformEnv
          \<lparr>Id = ''7'', attrs = sampleWebformAttrs\<rparr> emptyWorld))) = []"
proof -
  have t: "wf_team_id (attrs \<lparr>Id = ''7'', attrs = sampleWebformAttrs\<rparr>) \<noteq> []"
    by (simp add: sampleWebformAttrs_def)
  have g: "GetWebformById sampleWebformEnv
      (wf_team_id (attrs \<lparr>Id = ''7'', attrs = sampleWebformAttrs\<rparr>))
      (Id \<lparr>Id = ''7'', attrs = sampleWebformAttrs\<rparr>) (server emptyWorld) =
      (Inl ''not found'', ())"
    by (simp add: sampleWebformEnv_def)
  have r: "GetScheduleRotationById sampleRotationEnv
      (Id \<lparr>Id = ''500'', attrs = sampleRotationAttrs\<rparr>) (server emptyWorld) =
      (Inl ''internal error'', ())"
    by (simp add: sampleRotationEnv_def)
  have x: "DeleteWebform sampleWebformEnv
      (wf_team_id (attrs \<lparr>Id = ''7'', attrs = sampleWebformAttrs\<rparr>))
      (Id \<lparr>Id = ''7'', attrs = sampleWebformAttrs\<rparr>) (server emptyWorld) =
      (Inl ''not found'', ())"
    by (simp add: sampleWebformEnv_def)
  have n: "IsResourceNotFoundError sampleWebformEnv ''not found''"
    "\<not> IsResourceNotFoundError sampleRotationEnv ''internal error''"
    by (simp_all add: sampleWebformEnv_def sampleRotationEnv_def)
  from drift_detection[where d = "\<lparr>Id = ''7'', attrs = sampleWebformAttrs\<rparr>"
      and env = sampleWebformEnv and w = emptyWorld and err = "''not found''" and s' = "()"
      and renv = sampleRotationEnv and rd = "\<lparr>Id = ''500'', attrs = sampleRotationAttrs\<rparr>"
      and rw = emptyWorld and rerr = "''internal error''" and rs' = "()"
      and derr = "''not found''" and ds' = "()"] t g r x n
  show ?thesis by simp
qed

section \<open>Webform requests\<close>



lemma copyEmailOn_take:
  "length emailon = i + length vs \<Longrightarrow> copyEmailOn i vs emailon = take i emailon @ vs"
proof (induction vs arbitrary: i emailon)
  case Nil
  then show ?case by simp
next
  case (Cons v vs)
  from Cons.prems have i: "i < length emailon" by simp
  from Cons.prems have "length (emailon[i := v]) = Suc i + length vs" by simp
  from Cons.IH[OF this]
  have "copyEmailOn (Suc i) vs (emailon[i := v]) = take (Suc i) (emailon[i := v]) @ vs" .
  moreover from i have "take (Suc i) (emailon[i := v]) = take i emailon @ [v]"
    by (simp add: take_Suc_conv_app_nth)
  ultimately show ?case by simp
qed

lemma copyEmailOn_all: "copyEmailOn 0 vs (replicate (length vs) []) = vs"
  by (simp add: copyEmailOn_take)

lemma copyTags_map_of: "copyTags kvs tags = tags ++ map_of (rev kvs)"
  by (induction kvs arbitrary: tags) (auto simp: map_add_def fun_eq_iff split: option.splits)

lemma copyTags_distinct:
  "distinct (map fst kvs) \<Longrightarrow> copyTags kvs Map.empty = map_of kvs"
  apply (simp add: copyTags_map_of)
  by (metis distinct_rev map_of_inject_set rev_map set_rev)

lemma decimalValue_snoc: "decimalValue (s @ [c]) = 10 * decimalValue s + (of_char c - 48)"
  by (simp add: decimalValue_def)

lemma of_char_digitChar: "d < 10 \<Longrightarrow> of_char (digitChar d) = 48 + d"
  by (simp add: digitChar_def)

lemma decimalValue_formatDecimal: "decimalValue (formatDecimal n) = n"
proof (induction n rule: formatDecimal.induct)
  case (1 n)
  show ?case
  proof (cases "n < 10")
    case True
    then show ?thesis
      by (subst formatDecimal.simps) (simp add: decimalValue_def of_char_digitChar)
  next
    case False
    with 1 have "decimalValue (formatDecimal (n div 10)) = n div 10" by simp
    with False show ?thesis
      by (subst formatDecimal.simps) (simp add: decimalValue_snoc of_char_digitChar)
  qed
qed

lemma decimalValue_FormatUint: "decimalValue (FormatUint n) = unat n"
  by (simp add: FormatUint_def decimalValue_formatDecimal)

lemma buildWebformReq_eq:
  assumes "DecodeServices env (wf_services a) = Inr services"
    and "DecodeSeverity env (wf_severity a) = Inr severity"
    and "distinct (map fst (wf_tags a))"
  shows "buildWebformReq env a =
     Inr \<lparr>Req_Name = wf_name a, Req_TeamID = wf_team_id a,
          Req_FormOwnerType = wf_form_owner_type a, Req_FormOwnerID = wf_form_owner_id a,
          Req_FormOwnerName = wf_form_owner_name a, Req_HostName = wf_host_name a,
          Req_IsCname = wf_is_cname a, Req_Header = wf_header a,
          Req_Description = wf_description a, Req_Title = wf_title a,
          Req_FooterText = wf_footer_text a, Req_FooterLink = wf_footer_link a,
          Req_EmailOn = wf_email_on a, Req_Services = services, Req_Severity = severity,
          Req_Tags = map_of (wf_tags a)\<rparr>"
  using assms by (simp add: buildWebformReq_def Let_def copyEmailOn_all copyTags_distinct)

lemma resourceWebformRead_calls:
  "\<exists>cs. calls (snd (snd (resourceWebformRead env d w))) = calls w @ cs"
  by (auto simp: resourceWebformRead_def Let_def callApi_def
      split: prod.splits sum.splits option.splits)

lemma resourceWebformCreate_steps:
  assumes "buildWebformReq env (attrs d) = Inr req"
    and "CreateWebform env (wf_team_id (attrs d)) req (server w) = (r, s')"
  shows "resourceWebformCreate env d w =
     (let w' = w\<lparr>server := s',
                 calls := calls w @ [CreateWebformCall (wf_team_id (attrs d)) req]\<rparr>
      in case r of Inl err \<Rightarrow> (Some (FromErr err), d, w')
         | Inr webformID \<Rightarrow> resourceWebformRead env (d\<lparr>Id := FormatUint webformID\<rparr>) w')"
  using assms
  by (simp add: resourceWebformCreate_def Let_def callApi_eq SetId_def split: sum.splits)

text \<open>
  Claim C5. \<^verbatim>\<open>resourceWebformCreate\<close> passes to \<^verbatim>\<open>CreateWebform\<close> a request whose
  scalar fields are the attributes of the same names, whose \<^verbatim>\<open>EmailOn\<close> is the
  \<^verbatim>\<open>email_on\<close> list and whose \<^verbatim>\<open>Tags\<close> holds the entries of \<^verbatim>\<open>tags\<close> (the
  entries of a Go map have distinct keys); the request is assembled once both lists of
  blocks decode. When the API call succeeds, the handler sets the resource ID to the
  decimal string of the returned webform ID and goes on to read the webform.
\<close>

theorem webform_create_request:
  assumes "DecodeServices env (wf_services (attrs d)) = Inr services"
    and "DecodeSeverity env (wf_severity (attrs d)) = Inr severity"
    and "distinct (map fst (wf_tags (attrs d)))"
    and "req = \<lparr>Req_Name = wf_name (attrs d), Req_TeamID = wf_team_id (attrs d),
          Req_FormOwnerType = wf_form_owner_type (attrs d),
          Req_FormOwnerID = wf_form_owner_id (attrs d),
          Req_FormOwnerName = wf_form_owner_name (attrs d),
          Req_HostName = wf_host_name (attrs d),
          Req_IsCname = wf_is_cname (attrs d), Req_Header = wf_header (attrs d),
          Req_Description = wf_description (attrs d), Req_Title = wf_title (attrs d),
          Req_FooterText = wf_footer_text (attrs d),
          Req_FooterLink = wf_footer_link (attrs d),
          Req_EmailOn = wf_email_on (attrs d), Req_Services = services,
          Req_Severity = severity, Req_Tags = map_of (wf_tags (attrs d))\<rparr>"
    and "CreateWebform env (wf_team_id (attrs d)) req (server w) = (r, s')"
    and "w' = w\<lparr>server := s',
                 calls := calls w @ [CreateWebformCall (wf_team_id (attrs d)) req]\<rparr>"
  shows "buildWebformReq env (attrs d) = Inr req
    \<and> (\<exists>cs. calls (snd (snd (resourceWebformCreate env d w))) =
           calls w @ CreateWebformCall (wf_team_id (attrs d)) req # cs)
    \<and> (r = Inr webformID \<longrightarrow>
           resourceWebformCreate env d w =
             resourceWebformRead env (d\<lparr>Id := FormatUint webformID\<rparr>) w' \<and>
           decimalValue (FormatUint webformID) = unat webformID)"
proof (intro conjI)
  show b: "buildWebformReq env (attrs d) = Inr req"
    unfolding assms(4) using assms(1-3) by (rule buildWebformReq_eq)
  note st = resourceWebformCreate_steps[OF b assms(5)]
  show "\<exists>cs. calls (snd (snd (resourceWebformCreate env d w))) =
           calls w @ CreateWebformCall (wf_team_id (attrs d)) req # cs"
  proof (cases r)
    case (Inl err)
    then show ?thesis by (simp add: st)
  next
    case (Inr wid)
    from resourceWebformRead_calls[of env "d\<lparr>Id := FormatUint wid\<rparr>" w']
    obtain cs where "calls (snd (snd (resourceWebformRead env (d\<lparr>Id := FormatUint wid\<rparr>) w'))) =
       calls w' @ cs" ..
    with Inr show ?thesis by (simp add: st assms(6))
  qed
  show "r = Inr webformID \<longrightarrow>
           resourceWebformCreate env d w =
             resourceWebformRead env (d\<lparr>Id := FormatUint webformID\<rparr>) w' \<and>
           decimalValue (FormatUint webformID) = unat webformID"
    by (simp add: st assms(6) decimalValue_FormatUint)
qed

theorem webform_create_request_witness:
  "buildWebformReq sampleWebformEnv sampleWebformAttrs =
     Inr \<lparr>Req_Name = ''example webform name'', Req_TeamID = ''team1'',
          Req_FormOwnerType = ''user'', Req_FormOwnerID = ''user1'',
          Req_FormOwnerName = ''owner'', Req_HostName = [], Req_IsCname = False,
          Req_Header = ''formHeader'', Req_Description = ''formDescription'',
          Req_Title = ''formTitle'', Req_FooterText = ''footerText'',
          Req_FooterLink = ''footerLink'',
          Req_EmailOn = [''acknowledged'', ''resolved'', ''triggered''],
          Req_Services = wf_services sampleWebformAttrs,
          Req_Severity = wf_severity sampleWebformAttrs,
          Req_Tags = [''tagKey'' \<mapsto> ''tagValue'', ''tagKey2'' \<mapsto> ''tagValue2'']\<rparr>
   \<and> resourceWebformCreate sampleWebformEnv \<lparr>Id = [], attrs = sampleWebformAttrs\<rparr> emptyWorld =
       resourceWebformRead sampleWebformEnv \<lparr>Id = FormatUint 42, attrs = sampleWebformAttrs\<rparr>
         (emptyWorld\<lparr>calls := [CreateWebformCall ''team1''
            \<lparr>Req_Name = ''example webform name'', Req_TeamID = ''team1'',
             Req_FormOwnerType = ''user'', Req_FormOwnerID = ''user1'',
             Req_FormOwnerName = ''owner'', Req_HostName = [], Req_IsCname = False,
             Req_Header = ''formHeader'', Req_Description = ''formDescription'',
             Req_Title = ''formTitle'', Req_FooterText = ''footerText'',
             Req_FooterLink = ''footerLink'',
             Req_EmailOn = [''acknowledged'', ''resolved'', ''triggered''],
             Req_Services = wf_services sampleWebformAttrs,
             Req_Severity = wf_severity sampleWebformAttrs,
             Req_Tags = [''tagKey'' \<mapsto> ''tagValue'', ''tagKey2'' \<mapsto> ''tagValue2'']\<rparr>]\<rparr>)
   \<and> FormatUint 42 = ''42''"
proof -
  let ?d = "\<lparr>Id = [], attrs = sampleWebformAttrs\<rparr>"
  have tags: "map_of (wf_tags sampleWebformAttrs) =
      [''tagKey'' \<mapsto> ''tagValue'', ''tagKey2'' \<mapsto> ''tagValue2'']"
    by (auto simp: sampleWebformAttrs_def fun_eq_iff)
  have 1: "DecodeServices sampleWebformEnv (wf_services (attrs ?d)) =
      Inr (wf_services sampleWebformAttrs)"
    by (simp add: sampleWebformEnv_def)
  have 2: "DecodeSeverity sampleWebformEnv (wf_severity (attrs ?d)) =
      Inr (wf_severity sampleWebformAttrs)"
    by (simp add: sampleWebformEnv_def)
  have 3: "distinct (map fst (wf_tags (attrs ?d)))"
    by (simp add: sampleWebformAttrs_def)
  have 5: "CreateWebform sampleWebformEnv (wf_team_id (attrs ?d)) req (server emptyWorld) =
      (Inr 42, ())" for req
    by (simp add: sampleWebformEnv_def)
  have f: "FormatUint 42 = ''42''"
    by code_simp
  from webform_create_request[OF 1 2 3 refl 5 refl, of 42] tags f
  show ?thesis
    by (simp add: sampleWebformAttrs_def emptyWorld_def)
qed

section \<open>Creating a rotation\<close>

lemma participantGroupsLoop_Errorf:
  "participantGroupsLoop env ps acc = Inl dg \<Longrightarrow> \<exists>m. dg = Errorf m"
  by (induction ps arbitrary: acc) (auto split: option.splits sum.splits)

lemma participantGroupsLoop_Inl:
  "(\<exists>dg. participantGroupsLoop env ps acc = Inl dg) \<longleftrightarrow>
     (\<exists>g \<in> set ps. case g of None \<Rightarrow> True
        | Some m \<Rightarrow> (case DecodeParticipants env (pg_participants m) of
                       Inl _ \<Rightarrow> True | Inr _ \<Rightarrow> False))"
  by (induction ps arbitrary: acc) (auto split: option.splits sum.splits)

lemma buildRotationReq_Errorf:
  "buildRotationReq env a = Inl dg \<Longrightarrow> \<exists>m. dg = Errorf m"
  by (auto simp: buildRotationReq_def Let_def split: sum.splits if_splits
      dest: participantGroupsLoop_Errorf)

lemma buildRotationReq_Inl:
  "(\<exists>dg. buildRotationReq env a = Inl dg) \<longleftrightarrow>
     customPeriodViolation a \<or> decodeFailure env a"
proof (cases "\<exists>dg. participantGroupsLoop env (rot_participant_groups a) [] = Inl dg")
  case True
  then obtain dg where dg: "participantGroupsLoop env (rot_participant_groups a) [] = Inl dg"
    by blast
  then have ne: "rot_participant_groups a \<noteq> []" by auto
  from True have "decodeFailure env a"
    unfolding decodeFailure_def participantGroupsLoop_Inl by blast
  moreover from dg ne have "buildRotationReq env a = Inl dg"
    by (simp add: buildRotationReq_def Let_def)
  ultimately show ?thesis by blast
next
  case False
  then obtain gs where gs: "participantGroupsLoop env (rot_participant_groups a) [] = Inr gs"
    by (cases "participantGroupsLoop env (rot_participant_groups a) []") auto
  from False have nog: "\<not> (\<exists>g \<in> set (rot_participant_groups a). case g of None \<Rightarrow> True
        | Some m \<Rightarrow> (case DecodeParticipants env (pg_participants m) of
                       Inl _ \<Rightarrow> True | Inr _ \<Rightarrow> False))"
    unfolding participantGroupsLoop_Inl .
  from gs have gs': "(if 0 < length (rot_participant_groups a)
        then participantGroupsLoop env (rot_participant_groups a) []
        else Inr []) = Inr gs"
    by (cases "rot_participant_groups a") auto
  show ?thesis
    using nog gs'
    by (cases "DecodeTimeslots env (rot_shift_timeslots a)")
      (auto simp: buildRotationReq_def Let_def customPeriodViolation_def decodeFailure_def
        split: if_splits)
qed

lemma resourceScheduleRotationRead_calls:
  "calls (snd (snd (resourceScheduleRotationRead env d w))) =
     calls w @ [GetScheduleRotationByIdCall (Id d)]"
  by (auto simp: resourceScheduleRotationRead_def Let_def callApi_def
      split: prod.splits sum.splits option.splits)

lemma resourceScheduleRotationCreate_Inl:
  "buildRotationReq env (attrs d) = Inl dg \<Longrightarrow>
     resourceScheduleRotationCreate env d w = (Some dg, d, w)"
  by (simp add: resourceScheduleRotationCreate_def)

lemma resourceScheduleRotationCreate_Inr_calls:
  assumes "buildRotationReq env (attrs d) = Inr req"
  shows "\<exists>cs. calls (snd (snd (resourceScheduleRotationCreate env d w))) =
     calls w @ CreateScheduleRotationCall (rot_schedule_id (attrs d)) req # cs"
proof (cases "CreateScheduleRotation env (rot_schedule_id (attrs d)) req (server w)")
  case (Pair r s')
  show ?thesis
  proof (cases r)
    case (Inl err)
    with Pair assms show ?thesis
      by (simp add: resourceScheduleRotationCreate_def Let_def callApi_eq)
  next
    case (Inr rid)
    with Pair assms show ?thesis
      by (simp add: resourceScheduleRotationCreate_def Let_def callApi_eq
          resourceScheduleRotationRead_calls)
  qed
qed

lemma resourceScheduleRotationCreate_early:
  "(\<exists>m. resourceScheduleRotationCreate env d w = (Some (Errorf m), d, w)) \<longleftrightarrow>
     customPeriodViolation (attrs d) \<or> decodeFailure env (attrs d)"
proof (cases "buildRotationReq env (attrs d)")
  case (Inl dg)
  from buildRotationReq_Errorf[OF Inl] obtain m where "dg = Errorf m" ..
  with resourceScheduleRotationCreate_Inl[OF Inl, of w]
  have "\<exists>m. resourceScheduleRotationCreate env d w = (Some (Errorf m), d, w)" by blast
  moreover from Inl have "customPeriodViolation (attrs d) \<or> decodeFailure env (attrs d)"
    using buildRotationReq_Inl[of env "attrs d"] by blast
  ultimately show ?thesis by blast
next
  case (Inr req)
  from resourceScheduleRotationCreate_Inr_calls[OF Inr, of w]
  have "calls (snd (snd (resourceScheduleRotationCreate env d w))) \<noteq> calls w" by auto
  then have "\<not> (\<exists>m. resourceScheduleRotationCreate env d w = (Some (Errorf m), d, w))"
    by auto
  moreover from Inr have "\<not> (customPeriodViolation (attrs d) \<or> decodeFailure env (attrs d))"
    using buildRotationReq_Inl[of env "attrs d"] by auto
  ultimately show ?thesis by blast
qed

lemma crossField_iff:
  assumes "rotationSchemaValid v a"
  shows "crossFieldViolation a \<longleftrightarrow> customPeriodViolation a"
proof -
  from assms have u: "rot_custom_period_unit a \<noteq> Some []"
    by (auto simp: rotationSchemaValid_def whenSet_def StringInSlice_def)
  show ?thesis
    using u
    by (cases "rot_custom_period_frequency a"; cases "rot_custom_period_unit a")
      (auto simp: crossFieldViolation_def customPeriodViolation_def GetInt_def GetString_def)
qed

text \<open>
  Claim C2, as amended. The schema validators look at one attribute each, and the
  create handler of the rotation validates further: a configuration that passes the
  validators is rejected by the handler, with a diagnostic of its own and before any
  API call, exactly when the period and the custom-period attributes do not fit
  together, when several timeslots come with a period that is not custom, or when a
  nested block does not decode.
\<close>

theorem schema_valid_rotation_rejected:
  assumes "rotationSchemaValid v (attrs d)"
  shows "(\<exists>m. resourceScheduleRotationCreate env d w = (Some (Errorf m), d, w)) \<longleftrightarrow>
           crossFieldViolation (attrs d) \<or> decodeFailure env (attrs d)"
  unfolding crossField_iff[OF assms] by (rule resourceScheduleRotationCreate_early)

theorem schema_valid_rotation_rejected_witness:
  "rotationSchemaValid (\<lambda>i. True) sampleRotationAttrs
   \<and> \<not> crossFieldViolation sampleRotationAttrs
   \<and> \<not> decodeFailure sampleRotationEnv sampleRotationAttrs
   \<and> (\<nexists>m. resourceScheduleRotationCreate sampleRotationEnv
           \<lparr>Id = [], attrs = sampleRotationAttrs\<rparr> emptyWorld =
         (Some (Errorf m), \<lparr>Id = [], attrs = sampleRotationAttrs\<rparr>, emptyWorld))"
proof -
  have v: "rotationSchemaValid (\<lambda>i. True) (attrs \<lparr>Id = [], attrs = sampleRotationAttrs\<rparr>)"
    by (simp add: rotationSchemaValid_def sampleRotationAttrs_def StringLenBetween_def
        StringInSlice_def validTimeslot_def IntBetween_def whenSet_def)
  have c: "\<not> crossFieldViolation sampleRotationAttrs"
    by (simp add: crossFieldViolation_def sampleRotationAttrs_def)
  have f: "\<not> decodeFailure sampleRotationEnv sampleRotationAttrs"
    by (simp add: decodeFailure_def sampleRotationAttrs_def sampleRotationEnv_def)
  from schema_valid_rotation_rejected[OF v, of sampleRotationEnv emptyWorld] c f v
  show ?thesis by simp
qed

text \<open>
  Against C2 as stated: a daily rotation with a custom period frequency of 2 passes every
  validator of the schema, and the create handler rejects it.
\<close>

theorem schema_valid_rotation_counterexample:
  "rotationSchemaValid (\<lambda>i. True) (sampleRotationAttrs\<lparr>rot_custom_period_frequency := Some 2\<rparr>)
   \<and> resourceScheduleRotationCreate sampleRotationEnv
        \<lparr>Id = [], attrs = sampleRotationAttrs\<lparr>rot_custom_period_frequency := Some 2\<rparr>\<rparr>
        emptyWorld =
      (Some (Errorf ''custom_period_frequency can only be set when period is custom''),
       \<lparr>Id = [], attrs = sampleRotationAttrs\<lparr>rot_custom_period_frequency := Some 2\<rparr>\<rparr>,
       emptyWorld)"
  by (simp add: rotationSchemaValid_def sampleRotationAttrs_def StringLenBetween_def
      StringInSlice_def validTimeslot_def IntBetween_def whenSet_def
      resourceScheduleRotationCreate_def buildRotationReq_def Let_def sampleRotationEnv_def
      GetInt_def GetString_def)

text \<open>
  Claim C9, as amended. \<^verbatim>\<open>resourceScheduleRotationCreate\<close> returns a diagnostic of its
  own with no API call (the resource data and the world are as before) exactly when one
  of the five conditions on the custom period holds, or an element of
  \<^verbatim>\<open>participant_groups\<close> is not a map, or a \<^verbatim>\<open>Decode\<close> the handler reaches fails;
  otherwise its first step is the API call. A custom period frequency of 0 reads as an
  unset one, and a custom period with either is rejected.
\<close>

theorem rotation_create_validation:
  "((\<exists>m. resourceScheduleRotationCreate env d w = (Some (Errorf m), d, w)) \<longleftrightarrow>
      customPeriodViolation (attrs d) \<or> decodeFailure env (attrs d))
   \<and> (buildRotationReq env (attrs d) = Inr req \<longrightarrow>
        (\<exists>cs. calls (snd (snd (resourceScheduleRotationCreate env d w))) =
           calls w @ CreateScheduleRotationCall (rot_schedule_id (attrs d)) req # cs))
   \<and> GetInt (Some 0) = GetInt None
   \<and> (rot_period (attrs d) = ''custom'' \<and>
        (rot_custom_period_frequency (attrs d) = Some 0 \<or>
         rot_custom_period_frequency (attrs d) = None) \<longrightarrow>
        (\<exists>m. resourceScheduleRotationCreate env d w = (Some (Errorf m), d, w)))"
proof (intro conjI impI)
  show "(\<exists>m. resourceScheduleRotationCreate env d w = (Some (Errorf m), d, w)) \<longleftrightarrow>
      customPeriodViolation (attrs d) \<or> decodeFailure env (attrs d)"
    by (rule resourceScheduleRotationCreate_early)
next
  assume "buildRotationReq env (attrs d) = Inr req"
  then show "\<exists>cs. calls (snd (snd (resourceScheduleRotationCreate env d w))) =
           calls w @ CreateScheduleRotationCall (rot_schedule_id (attrs d)) req # cs"
    by (rule resourceScheduleRotationCreate_Inr_calls)
next
  show "GetInt (Some 0) = GetInt None" by (simp add: GetInt_def)
next
  assume "rot_period (attrs d) = ''custom'' \<and>
        (rot_custom_period_frequency (attrs d) = Some 0 \<or>
         rot_custom_period_frequency (attrs d) = None)"
  then have "customPeriodViolation (attrs d)"
    by (auto simp: customPeriodViolation_def GetInt_def)
  then show "\<exists>m. resourceScheduleRotationCreate env d w = (Some (Errorf m), d, w)"
    using resourceScheduleRotationCreate_early[of env d w] by blast
qed

theorem rotation_create_validation_witness:
  "customPeriodViolation (sampleRotationAttrs\<lparr>rot_period := ''custom'',
       rot_custom_period_frequency := Some 0, rot_custom_period_unit := Some ''week''\<rparr>)
   \<and> (\<exists>m. resourceScheduleRotationCreate sampleRotationEnv
         \<lparr>Id = [], attrs = sampleRotationAttrs\<lparr>rot_period := ''custom'',
            rot_custom_period_frequency := Some 0, rot_custom_period_unit := Some ''week''\<rparr>\<rparr>
         emptyWorld =
       (Some (Errorf m),
        \<lparr>Id = [], attrs = sampleRotationAttrs\<lparr>rot_period := ''custom'',
            rot_custom_period_frequency := Some 0, rot_custom_period_unit := Some ''week''\<rparr>\<rparr>,
        emptyWorld))"
proof -
  let ?a = "sampleRotationAttrs\<lparr>rot_period := ''custom'',
       rot_custom_period_frequency := Some 0, rot_custom_period_unit := Some ''week''\<rparr>"
  have v: "customPeriodViolation ?a"
    by (simp add: customPeriodViolation_def GetInt_def)
  from rotation_create_validation[of sampleRotationEnv "\<lparr>Id = [], attrs = ?a\<rparr>" emptyWorld] v
  show ?thesis by simp
qed

text \<open>
  Against C9 as stated: a \<^verbatim>\<open>participant_groups\<close> element that is not a map is rejected
  before any API call, and none of the five conditions holds.
\<close>

theorem rotation_create_validation_counterexample:
  "resourceScheduleRotationCreate sampleRotationEnv
      \<lparr>Id = [], attrs = sampleRotationAttrs\<lparr>rot_participant_groups := [None]\<rparr>\<rparr> emptyWorld =
     (Some (Errorf ''participant_groups is invalid''),
      \<lparr>Id = [], attrs = sampleRotationAttrs\<lparr>rot_participant_groups := [None]\<rparr>\<rparr>, emptyWorld)
   \<and> \<not> customPeriodViolation (sampleRotationAttrs\<lparr>rot_participant_groups := [None]\<rparr>)"
  by (simp add: resourceScheduleRotationCreate_def buildRotationReq_def Let_def
      customPeriodViolation_def sampleRotationAttrs_def GetInt_def GetString_def)

section \<open>Updating a resource\<close>

text \<open>
  Claim C3, as amended. The update operation of the webform calls \<^verbatim>\<open>UpdateWebform\<close>
  with the current resource ID and, when that succeeds, reads the webform under the same
  ID: the update itself assigns no ID. The update operation of the schedule rotation is
  the create handler: it calls \<^verbatim>\<open>CreateScheduleRotation\<close>, sets the resource ID to
  the ID of the rotation just created and reads that rotation.
\<close>

theorem update_operations:
  "(buildWebformReq env (attrs d) = Inr req \<and>
    UpdateWebform env (wf_team_id (attrs d)) (Id d) req (server w) = (Inr u, s') \<longrightarrow>
      resourceWebform_UpdateContext env d w =
        resourceWebformRead env d
          (w\<lparr>server := s',
             calls := calls w @ [UpdateWebformCall (wf_team_id (attrs d)) (Id d) req]\<rparr>))
   \<and> (buildRotationReq renv (attrs rd) = Inr rreq \<and>
    CreateScheduleRotation renv (rot_schedule_id (attrs rd)) rreq (server rw) =
      (Inr rotationID, rs') \<longrightarrow>
      resourceScheduleRotation_UpdateContext renv rd rw =
        resourceScheduleRotationRead renv (rd\<lparr>Id := Itoa rotationID\<rparr>)
          (rw\<lparr>server := rs',
              calls := calls rw @
                [CreateScheduleRotationCall (rot_schedule_id (attrs rd)) rreq]\<rparr>))"
  by (simp add: resourceWebform_UpdateContext_def resourceWebformUpdate_def
      resourceScheduleRotation_UpdateContext_def resourceScheduleRotationCreate_def
      Let_def callApi_eq SetId_def)

theorem update_operations_witness:
  "resourceWebform_UpdateContext sampleWebformEnv \<lparr>Id = ''42'', attrs = sampleWebformAttrs\<rparr>
      emptyWorld =
     (None, \<lparr>Id = ''42'', attrs = sampleWebformAttrs\<rparr>,
      \<lparr>server = (),
       calls = [UpdateWebformCall ''team1'' ''42''
                  (projr (buildWebformReq sampleWebformEnv sampleWebformAttrs)),
                GetWebformByIdCall ''team1'' ''42'']\<rparr>)
   \<and> fst (snd (resourceScheduleRotation_UpdateContext sampleRotationEnv
        \<lparr>Id = ''5'', attrs = sampleRotationAttrs\<rparr> emptyWorld)) =
       \<lparr>Id = ''9'', attrs = sampleRotationAttrs\<rparr>"
proof -
  let ?d = "\<lparr>Id = ''42'', attrs = sampleWebformAttrs\<rparr>"
  let ?rd = "\<lparr>Id = ''5'', attrs = sampleRotationAttrs\<rparr>"
  obtain req where b: "buildWebformReq sampleWebformEnv (attrs ?d) = Inr req"
    by (simp add: buildWebformReq_def Let_def sampleWebformEnv_def)
  have u: "UpdateWebform sampleWebformEnv (wf_team_id (attrs ?d)) (Id ?d) req
      (server emptyWorld) = (Inr (), ())"
    by (simp add: sampleWebformEnv_def)
  have t: "wf_team_id sampleWebformAttrs = ''team1''"
    by (simp add: sampleWebformAttrs_def)
  obtain rreq where rb: "buildRotationReq sampleRotationEnv (attrs ?rd) = Inr rreq"
    by (simp add: buildRotationReq_def Let_def sampleRotationEnv_def sampleRotationAttrs_def
        GetInt_def GetString_def)
  have c: "CreateScheduleRotation sampleRotationEnv (rot_schedule_id (attrs ?rd)) rreq
      (server emptyWorld) = (Inr 9, ())"
    by (simp add: sampleRotationEnv_def)
  have i: "Itoa 9 = ''9''"
    by code_simp
  have rr: "resourceScheduleRotationRead sampleRotationEnv \<lparr>Id = ''9'', attrs = sampleRotationAttrs\<rparr> w =
      (None, \<lparr>Id = ''9'', attrs = sampleRotationAttrs\<rparr>,
       w\<lparr>server := (), calls := calls w @ [GetScheduleRotationByIdCall ''9'']\<rparr>)" for w
    by (simp add: resourceScheduleRotationRead_def Let_def callApi_def sampleRotationEnv_def)
  have wr: "resourceWebformRead sampleWebformEnv ?d w =
      (None, ?d, w\<lparr>server := (), calls := calls w @ [GetWebformByIdCall ''team1'' ''42'']\<rparr>)" for w
    by (simp add: resourceWebformRead_def Let_def callApi_def sampleWebformEnv_def
        sampleWebformAttrs_def)
  from update_operations[of sampleWebformEnv ?d req emptyWorld "()" "()"
      sampleRotationEnv ?rd rreq emptyWorld 9 "()"] b u rb c
  show ?thesis
    by (simp add: i rr wr emptyWorld_def t)
qed

text \<open>
  Against C3 as stated: updating rotation 5 succeeds and leaves the resource under the
  new ID 9.
\<close>

theorem update_operations_counterexample:
  "resourceScheduleRotation_UpdateContext sampleRotationEnv
      \<lparr>Id = ''5'', attrs = sampleRotationAttrs\<rparr> emptyWorld =
     (None, \<lparr>Id = ''9'', attrs = sampleRotationAttrs\<rparr>,
      \<lparr>server = (),
       calls = [CreateScheduleRotationCall 3
                  (projr (buildRotationReq sampleRotationEnv sampleRotationAttrs)),
                GetScheduleRotationByIdCall ''9'']\<rparr>)
   \<and> Id \<lparr>Id = ''5'', attrs = sampleRotationAttrs\<rparr> \<noteq> ''9''"
proof -
  have i: "Itoa 9 = ''9''"
    by code_simp
  obtain rreq where rb: "buildRotationReq sampleRotationEnv sampleRotationAttrs = Inr rreq"
    by (simp add: buildRotationReq_def Let_def sampleRotationEnv_def sampleRotationAttrs_def
        GetInt_def GetString_def)
  have s: "rot_schedule_id sampleRotationAttrs = 3"
    by (simp add: sampleRotationAttrs_def)
  have c: "CreateScheduleRotation sampleRotationEnv 3 rreq () = (Inr 9, ())"
    by (simp add: sampleRotationEnv_def)
  have rr: "resourceScheduleRotationRead sampleRotationEnv \<lparr>Id = ''9'', attrs = sampleRotationAttrs\<rparr> w =
      (None, \<lparr>Id = ''9'', attrs = sampleRotationAttrs\<rparr>,
       w\<lparr>server := (), calls := calls w @ [GetScheduleRotationByIdCall ''9'']\<rparr>)" for w
    by (simp add: resourceScheduleRotationRead_def Let_def callApi_def sampleRotationEnv_def)
  show ?thesis
    by (simp add: resourceScheduleRotation_UpdateContext_def resourceScheduleRotationCreate_def
        rb s c rr Let_def callApi_def SetId_def i emptyWorld_def)
qed

end
